theory Spec2Isabelle
  imports Complex_Main
begin

section \<open>Values, requests and responses\<close>

text \<open>
  The request handler of the finance tracker (the Lambda function with \<open>exports.handler\<close>)
  is embedded as pure functions over an explicit world: the tables of
  \<open>database/schema.sql\<close> and three counters that index the answers of the outside world
  (the wall clock, the relational store's failures, the text-generation provider).

  JSON values carry the response bodies and the parsed request bodies. A JSON number is
  the rational value of a double. An instant (a JavaScript \<open>Date\<close>, serialised by
  \<open>toISOString\<close>) is kept as \<open>JDate\<close> of its milliseconds since the epoch, and
  the \<open>Date\<close> that the driver makes of a \<open>DATE\<close> value as \<open>JDay\<close> of the
  day.
\<close>

datatype json =
    JNull
  | JBool bool
  | JNum rat
  | JStr string
  | JDate nat
  | JDay string
  | JArr "json list"
  | JObj "(string \<times> json) list"

text \<open>A thrown JavaScript \<open>Error\<close>, with its message. Errors raised by the engine
  itself are named after their class.\<close>

datatype error = Error string

fun message :: "error \<Rightarrow> string" where
  "message (Error m) = m"

record response =
  statusCode :: nat
  resp_headers :: "(string \<times> string) list"
  resp_body :: json

definition corsHeaders :: "(string \<times> string) list" where
  "corsHeaders =
     [(''Access-Control-Allow-Origin'', ''*''),
      (''Access-Control-Allow-Headers'', ''Content-Type,Authorization''),
      (''Access-Control-Allow-Methods'', ''GET,POST,PUT,DELETE,OPTIONS'')]"

text \<open>\<open>createResponse\<close>; the body stays a structured value instead of its
  \<open>JSON.stringify\<close> text.\<close>

definition createResponse :: "nat \<Rightarrow> json \<Rightarrow> response" where
  "createResponse code b = \<lparr>statusCode = code, resp_headers = corsHeaders, resp_body = b\<rparr>"

text \<open>An object literal; a member whose value is \<open>undefined\<close> is dropped by
  \<open>JSON.stringify\<close>.\<close>

definition mk_obj :: "(string \<times> json option) list \<Rightarrow> json" where
  "mk_obj kvs = JObj (List.map_filter (\<lambda>(k, v). map_option (Pair k) v) kvs)"

definition success_body :: "json \<Rightarrow> json" where
  "success_body d = JObj [(''success'', JBool True), (''data'', d)]"

definition failure_body :: "string \<Rightarrow> json" where
  "failure_body m = JObj [(''success'', JBool False), (''error'', JStr m)]"

text \<open>Member lookup in a JSON object (\<open>None\<close> is \<open>undefined\<close>).\<close>

fun member :: "json \<Rightarrow> string \<Rightarrow> json option" where
  "member (JObj kvs) k = map_of kvs k"
| "member _ k = None"

text \<open>The API Gateway event. \<open>body\<close> is the result of \<open>JSON.parse(event.body)\<close>,
  \<open>None\<close> when the parse throws.\<close>

record event =
  httpMethod :: string
  path :: "string option"
  resource :: "string option"
  pathParameters :: "(string \<rightharpoonup> string) option"
  queryStringParameters :: "(string \<rightharpoonup> string) option"
  headers :: "(string \<rightharpoonup> string) option"
  body :: "json option"

text \<open>The claims of a verified identity token.\<close>

record payload =
  sub :: string
  email :: "string option"
  name :: "string option"

text \<open>What \<open>callGemini\<close> reads of the provider's answer: the request fails
  (transport or HTTP error), or the response carries the text of the first part of the first
  candidate, when there is one.\<close>

datatype provider_reply = RequestFailed | Responded "string option"

text \<open>The environment of one deployment: the identity verifier, the API credential and
  the three oracles. \<open>wall_clock n\<close> is the \<open>n\<close>-th reading of the clock in
  milliseconds, \<open>db_fault n\<close> the error of the \<open>n\<close>-th store call when it fails,
  \<open>gemini_reply n\<close> the provider's answer to the \<open>n\<close>-th request, and
  \<open>schema_info\<close> the store's answer to a metadata statement. \<open>to_decimal\<close> is the
  store's conversion of a bound number to a \<open>DECIMAL(10,2)\<close> column, in hundredths
  (\<open>None\<close> when the store rejects the number), and \<open>json_of_text\<close> is what
  \<open>JSON.parse\<close> makes of the text of a value that is no string (\<open>None\<close> when it
  throws).\<close>

record env =
  verify :: "string \<Rightarrow> payload option"
  GEMINI_API_KEY :: "string option"
  wall_clock :: "nat \<Rightarrow> nat"
  db_fault :: "nat \<Rightarrow> string option"
  gemini_reply :: "nat \<Rightarrow> provider_reply"
  schema_info :: "string \<Rightarrow> json"
  to_decimal :: "rat \<Rightarrow> int option"
  json_of_text :: "json \<Rightarrow> json option"

subsection \<open>Tables\<close>

text \<open>A \<open>DECIMAL(10,2)\<close> column holds its value in hundredths.\<close>

record user_row =
  u_id :: string
  u_email :: string
  u_name :: string
  u_created_at :: nat
  u_updated_at :: nat

record quiz_row =
  q_id :: nat
  q_user_id :: string
  q_answers :: json
  q_analysis :: string
  q_created_at :: nat

record spending_row =
  se_id :: nat
  se_user_id :: string
  se_date :: string
  se_amount :: int
  se_description :: string
  se_category :: string
  se_is_necessary :: bool
  se_created_at :: nat

record goal_row =
  g_id :: nat
  g_user_id :: string
  g_monthly_income :: int
  g_monthly_savings_goal :: int
  g_savings_plan :: string
  g_created_at :: nat
  g_updated_at :: nat

record chat_row =
  c_id :: nat
  c_user_id :: string
  c_message :: string
  c_is_user :: bool
  c_timestamp :: nat

record world =
  users :: "user_row list"
  quiz_responses :: "quiz_row list"
  spending_entries :: "spending_row list"
  savings_goals :: "goal_row list"
  chat_messages :: "chat_row list"
  quiz_next_id :: nat
  spending_next_id :: nat
  goals_next_id :: nat
  chat_next_id :: nat
  clock_reads :: nat
  db_calls :: nat
  gemini_calls :: nat

type_synonym 'a io = "world \<Rightarrow> (error + 'a) \<times> world"


section \<open>Strings\<close>

text \<open>JavaScript truthiness of a value that is a string or \<open>undefined\<close>.\<close>

fun truthy :: "string option \<Rightarrow> bool" where
  "truthy None = False"
| "truthy (Some s) = (s \<noteq> [])"

text \<open>\<open>a || b\<close> on such values.\<close>

definition js_or :: "string option \<Rightarrow> string option \<Rightarrow> string option" where
  "js_or a b = (if truthy a then a else b)"

definition startsWith :: "string \<Rightarrow> string \<Rightarrow> bool" where
  "startsWith s p = (take (length p) s = p)"

text \<open>\<open>String.prototype.indexOf\<close>: the first position where \<open>p\<close> occurs,
  \<open>None\<close> for \<open>-1\<close>.\<close>

fun indexOf :: "string \<Rightarrow> string \<Rightarrow> nat option" where
  "indexOf [] p = (if p = [] then Some 0 else None)"
| "indexOf (c # cs) p =
     (if startsWith (c # cs) p then Some 0 else map_option Suc (indexOf cs p))"

text \<open>\<open>rest.slice(0, rest.indexOf(sep))\<close> when \<open>sep\<close> occurs, \<open>rest\<close>
  otherwise.\<close>

definition cut_at :: "string \<Rightarrow> string \<Rightarrow> string" where
  "cut_at sep rest = (case indexOf rest sep of None \<Rightarrow> rest | Some i \<Rightarrow> take i rest)"

definition extractUserIdFromPath :: "string option \<Rightarrow> string \<Rightarrow> string option" where
  "extractUserIdFromPath p pre =
     (if \<not> truthy p \<or> pre = [] then None
      else case indexOf (the p) pre of
             None \<Rightarrow> None
           | Some idx \<Rightarrow> Some (cut_at ''/'' (cut_at ''?'' (drop (idx + length pre) (the p)))))"

text \<open>The whitespace class \<open>\s\<close>, and the replacement of \<open>/^Bearer\s+/i\<close>
  by the empty string. A character here is a code unit below 256; of the class these are the
  blank, the five controls and the no-break space U+00A0. The spaces of the class beyond
  (U+1680, U+2000 to U+200A, U+2028, U+2029, U+202F, U+205F, U+3000, U+FEFF) have no
  character here.\<close>

definition is_space :: "char \<Rightarrow> bool" where
  "is_space c = (c \<in> {CHR '' '', CHR 0x09, CHR 0x0A, CHR 0x0B, CHR 0x0C, CHR 0x0D, CHR 0xA0})"

definition ci :: "char \<Rightarrow> char \<Rightarrow> char \<Rightarrow> bool" where
  "ci up lo c = (c = up \<or> c = lo)"

fun after_bearer :: "string \<Rightarrow> string option" where
  "after_bearer (b # e # a # r # e' # r' # rest) =
     (if ci CHR ''B'' CHR ''b'' b \<and> ci CHR ''E'' CHR ''e'' e \<and> ci CHR ''A'' CHR ''a'' a
         \<and> ci CHR ''R'' CHR ''r'' r \<and> ci CHR ''E'' CHR ''e'' e' \<and> ci CHR ''R'' CHR ''r'' r'
      then Some rest else None)"
| "after_bearer _ = None"

definition strip_bearer :: "string \<Rightarrow> string" where
  "strip_bearer h =
     (case after_bearer h of
        None \<Rightarrow> h
      | Some rest \<Rightarrow> (case rest of
                       [] \<Rightarrow> h
                     | c # cs \<Rightarrow> if is_space c then dropWhile is_space rest else h))"

text \<open>\<open>Number.prototype.toString\<close> on a natural number, and the store's reading
  of a bound string as an integer key.\<close>

definition digit_char :: "nat \<Rightarrow> char" where
  "digit_char d = ''0123456789'' ! d"

fun toString :: "nat \<Rightarrow> string" where
  "toString n = (if n < 10 then [digit_char n] else toString (n div 10) @ [digit_char (n mod 10)])"

declare toString.simps [simp del]

definition digit_val :: "char \<Rightarrow> nat option" where
  "digit_val c = map_of (zip ''0123456789'' [0 ..< 10]) c"

fun parse_digits :: "nat \<Rightarrow> string \<Rightarrow> nat option" where
  "parse_digits acc [] = Some acc"
| "parse_digits acc (c # cs) =
     (case digit_val c of None \<Rightarrow> None | Some d \<Rightarrow> parse_digits (10 * acc + d) cs)"

definition parse_key :: "string \<Rightarrow> nat option" where
  "parse_key s = (if s = [] then None else parse_digits 0 s)"

section \<open>JavaScript numbers\<close>

text \<open>A number is a double: not-a-number, an infinity, or a finite value, kept as the
  rational it is. Zero carries no sign here; no divisor of the handlers is zero.\<close>

datatype jsnum = NaN | PosInf | NegInf | Fin rat

text \<open>Rounding to the nearest integer, ties to even.\<close>

definition round_even :: "rat \<Rightarrow> int" where
  "round_even y =
     (let f = \<lfloor>y\<rfloor>; d = y - of_int f
      in if d < 1 / 2 then f else if 1 / 2 < d then f + 1 else if even f then f else f + 1)"

text \<open>The binary exponent of a positive value, within the range of the format: halvings
  of a value from 1 on until it is below 2 (at most 1024), doublings of a value below 1 until
  it reaches 1 (at most 1022, from where on the values are subnormal).\<close>

fun halvings :: "nat \<Rightarrow> rat \<Rightarrow> nat" where
  "halvings n x = (if n = 0 \<or> x < 2 then 0 else Suc (halvings (n - 1) (x / 2)))"

declare halvings.simps [simp del]

fun doublings :: "nat \<Rightarrow> rat \<Rightarrow> nat" where
  "doublings n x = (if n = 0 \<or> 1 \<le> x then 0 else Suc (doublings (n - 1) (x * 2)))"

declare doublings.simps [simp del]

definition exponent :: "rat \<Rightarrow> int" where
  "exponent x = (if 1 \<le> x then int (halvings 1024 x) else - int (doublings 1022 x))"

text \<open>The distance of neighbouring doubles at an exponent: 52 fraction bits.\<close>

definition ulp :: "int \<Rightarrow> rat" where
  "ulp e = (if 52 \<le> e then 2 ^ nat (e - 52) else 1 / 2 ^ nat (52 - e))"

text \<open>The double of a real value: round to nearest, ties to even; beyond the largest
  double, infinity.\<close>

definition to_double :: "rat \<Rightarrow> jsnum" where
  "to_double x =
     (if x = 0 then Fin 0
      else let u = ulp (exponent \<bar>x\<bar>); r = of_int (round_even (x / u)) * u
           in if 2 ^ 1024 \<le> r then PosInf else if r \<le> - (2 ^ 1024) then NegInf else Fin r)"

definition signed_inf :: "bool \<Rightarrow> jsnum" where
  "signed_inf neg = (if neg then NegInf else PosInf)"

fun is_neg :: "jsnum \<Rightarrow> bool" where
  "is_neg NegInf = True"
| "is_neg (Fin r) = (r < 0)"
| "is_neg x = False"

text \<open>The operators \<open>-\<close>, \<open>*\<close>, \<open>/\<close> and \<open><=\<close> on numbers.\<close>

fun js_sub :: "jsnum \<Rightarrow> jsnum \<Rightarrow> jsnum" where
  "js_sub NaN y = NaN"
| "js_sub x NaN = NaN"
| "js_sub (Fin a) (Fin b) = to_double (a - b)"
| "js_sub PosInf PosInf = NaN"
| "js_sub NegInf NegInf = NaN"
| "js_sub PosInf y = PosInf"
| "js_sub NegInf y = NegInf"
| "js_sub (Fin a) PosInf = NegInf"
| "js_sub (Fin a) NegInf = PosInf"

fun js_mul :: "jsnum \<Rightarrow> jsnum \<Rightarrow> jsnum" where
  "js_mul NaN y = NaN"
| "js_mul x NaN = NaN"
| "js_mul (Fin a) (Fin b) = to_double (a * b)"
| "js_mul x y = (if x = Fin 0 \<or> y = Fin 0 then NaN else signed_inf (is_neg x \<noteq> is_neg y))"

fun js_div :: "jsnum \<Rightarrow> jsnum \<Rightarrow> jsnum" where
  "js_div NaN y = NaN"
| "js_div x NaN = NaN"
| "js_div (Fin a) (Fin b) =
     (if b = 0 then (if a = 0 then NaN else signed_inf (a < 0)) else to_double (a / b))"
| "js_div (Fin a) y = Fin 0"
| "js_div x (Fin b) = signed_inf (is_neg x \<noteq> (b < 0))"
| "js_div x y = NaN"

fun js_le :: "jsnum \<Rightarrow> jsnum \<Rightarrow> bool" where
  "js_le NaN y = False"
| "js_le x NaN = False"
| "js_le (Fin a) (Fin b) = (a \<le> b)"
| "js_le NegInf y = True"
| "js_le x PosInf = True"
| "js_le x y = False"

text \<open>The text that the driver hands over for a \<open>DECIMAL(10,2)\<close> value (it has no
  \<open>decimalNumbers\<close> option set): sign, integer part, point, two digits.\<close>

definition decimal_text :: "int \<Rightarrow> string" where
  "decimal_text c =
     (if c < 0 then ''-'' else []) @ toString (nat \<bar>c\<bar> div 100) @ ''.'' @
     [digit_char (nat \<bar>c\<bar> mod 100 div 10), digit_char (nat \<bar>c\<bar> mod 10)]"

text \<open>The conversion of a string to a number (as the operators \<open>-\<close> and \<open><=\<close>
  apply it) and \<open>parseFloat\<close>, on strings made of signs, digits and points, which is
  what the texts of \<open>DECIMAL\<close> values and their concatenations are made of. The
  conversion takes the whole string as a decimal literal, the empty string as 0;
  \<open>parseFloat\<close> takes the longest prefix that is one. The other spellings of numbers
  (white space around, exponents, radix prefixes, \<open>Infinity\<close>) need characters that
  such a string does not have and are not read here.\<close>

definition is_digit :: "char \<Rightarrow> bool" where
  "is_digit c = (digit_val c \<noteq> None)"

definition split_sign :: "string \<Rightarrow> bool \<times> string" where
  "split_sign s =
     (case s of
        [] \<Rightarrow> (False, [])
      | c # t \<Rightarrow> if c = CHR ''-'' then (True, t) else if c = CHR ''+'' then (False, t)
                 else (False, s))"

definition decimal_value :: "bool \<Rightarrow> string \<Rightarrow> string \<Rightarrow> jsnum" where
  "decimal_value neg ip fp =
     (case (parse_digits 0 ip, parse_digits 0 fp) of
        (Some i, Some f) \<Rightarrow>
          (let v = of_nat i + of_nat f / 10 ^ length fp
           in to_double (if neg then - v else v))
      | _ \<Rightarrow> NaN)"

definition to_number :: "string \<Rightarrow> jsnum" where
  "to_number s =
     (if s = [] then Fin 0
      else case split_sign s of (neg, u) \<Rightarrow>
        (let ip = takeWhile is_digit u; rest = dropWhile is_digit u
         in case rest of
              [] \<Rightarrow> if ip = [] then NaN else decimal_value neg ip []
            | c # fp \<Rightarrow>
                if c = CHR ''.'' \<and> list_all is_digit fp \<and> (ip \<noteq> [] \<or> fp \<noteq> [])
                then decimal_value neg ip fp else NaN))"

definition parseFloat :: "string \<Rightarrow> jsnum" where
  "parseFloat s =
     (case split_sign s of (neg, u) \<Rightarrow>
        (let ip = takeWhile is_digit u; rest = dropWhile is_digit u;
             fp = (case rest of
                     [] \<Rightarrow> []
                   | c # t \<Rightarrow> if c = CHR ''.'' then takeWhile is_digit t else [])
         in if ip = [] \<and> fp = [] then NaN else decimal_value neg ip fp))"

text \<open>A value that is a number or a string, its conversion to a number, and what
  \<open>JSON.stringify\<close> writes for it (\<open>null\<close> for a number that is not finite).\<close>

datatype jsval = JsNum jsnum | JsStr string

fun ToNumber :: "jsval \<Rightarrow> jsnum" where
  "ToNumber (JsNum n) = n"
| "ToNumber (JsStr s) = to_number s"

fun json_of_num :: "jsnum \<Rightarrow> json" where
  "json_of_num (Fin r) = JNum r"
| "json_of_num x = JNull"

fun json_of :: "jsval \<Rightarrow> json" where
  "json_of (JsNum n) = json_of_num n"
| "json_of (JsStr s) = JStr s"

section \<open>Token verifier\<close>

text \<open>The \<open>try\<close> block of \<open>verifyToken\<close>, then the function with its
  \<open>catch\<close>, which replaces whatever was thrown.\<close>

definition auth_header :: "event \<Rightarrow> string option" where
  "auth_header ev =
     (let hs = (case headers ev of None \<Rightarrow> Map.empty | Some h \<Rightarrow> h)
      in js_or (js_or (hs ''Authorization'') (hs ''authorization'')) (hs ''AUTHORIZATION''))"

definition verifyToken_try :: "env \<Rightarrow> event \<Rightarrow> error + payload" where
  "verifyToken_try E ev =
     (let authHeader = auth_header ev;
          token = (if truthy authHeader then Some (strip_bearer (the authHeader)) else None)
      in if \<not> truthy token then Inl (Error ''No token provided'')
         else case verify E (the token) of
                None \<Rightarrow> Inl (Error ''Token verification failed'')
              | Some p \<Rightarrow> Inr p)"

definition verifyToken :: "env \<Rightarrow> event \<Rightarrow> error + payload" where
  "verifyToken E ev =
     (case verifyToken_try E ev of
        Inl e \<Rightarrow> Inl (Error ''Invalid token'')
      | Inr p \<Rightarrow> Inr p)"

section \<open>Text-generation client\<close>

text \<open>The prompt only travels to the provider, whose answer is an input of the model,
  so \<open>callGemini\<close> takes no prompt here. Again the \<open>try\<close> block first, then the
  function with its guard and its \<open>catch\<close>.\<close>

definition callGemini_try :: "provider_reply \<Rightarrow> error + string" where
  "callGemini_try r =
     (case r of
        RequestFailed \<Rightarrow> Inl (Error ''Request failed'')
      | Responded t \<Rightarrow>
          (let text = (if truthy t then the t else [])
           in if text = [] then Inl (Error ''Empty response from Gemini'') else Inr text))"

definition callGemini :: "env \<Rightarrow> string io" where
  "callGemini E w =
     (if \<not> truthy (GEMINI_API_KEY E) then (Inl (Error ''GEMINI_API_KEY is not configured''), w)
      else let w' = w\<lparr>gemini_calls := Suc (gemini_calls w)\<rparr>
           in case callGemini_try (gemini_reply E (gemini_calls w)) of
                Inl e \<Rightarrow> (Inl (Error ''Failed to get AI response''), w')
              | Inr t \<Rightarrow> (Inr t, w'))"


section \<open>Query executor and the statements\<close>

definition read_clock :: "env \<Rightarrow> world \<Rightarrow> nat \<times> world" where
  "read_clock E w = (wall_clock E (clock_reads w), w\<lparr>clock_reads := Suc (clock_reads w)\<rparr>)"

text \<open>\<open>NOW()\<close> in a statement: the \<open>TIMESTAMP\<close> columns keep whole seconds.\<close>

definition NOW :: "env \<Rightarrow> world \<Rightarrow> nat \<times> world" where
  "NOW E w = (case read_clock E w of (t, w') \<Rightarrow> (t div 1000 * 1000, w'))"

text \<open>A statement with its parameters bound: it fails, or returns its rows and the
  world with the tables as the statement leaves them.\<close>

type_synonym 'a stmt = "world \<Rightarrow> error + ('a \<times> world)"

text \<open>\<open>executeQuery\<close>: one connection per call. The call fails as a whole when the
  store is at fault (\<open>db_fault\<close>), or when the statement is rejected; a rejected
  statement changes no table.\<close>

definition executeQuery :: "env \<Rightarrow> 'a stmt \<Rightarrow> 'a io" where
  "executeQuery E st w =
     (let w1 = w\<lparr>db_calls := Suc (db_calls w)\<rparr>
      in case db_fault E (db_calls w) of
           Some m \<Rightarrow> (Inl (Error m), w1)
         | None \<Rightarrow> (case st w1 of
                      Inl e \<Rightarrow> (Inl e, w1)
                    | Inr (r, w2) \<Rightarrow> (Inr r, w2)))"

text \<open>The driver refuses a bind parameter that is \<open>undefined\<close>. The store rejects a
  value that is not of the column's type: its implicit conversions are not modelled.\<close>

definition bind_error :: error where
  "bind_error = Error ''Bind parameters must not contain undefined''"

definition value_error :: error where
  "value_error = Error ''Incorrect value''"

definition INT_MAX :: nat where
  "INT_MAX = 2147483647"

fun as_text :: "json \<Rightarrow> string option" where
  "as_text (JStr s) = Some s"
| "as_text _ = None"

fun as_decimal :: "env \<Rightarrow> json \<Rightarrow> int option" where
  "as_decimal E (JNum r) = to_decimal E r"
| "as_decimal E _ = None"

fun as_boolean :: "json \<Rightarrow> bool option" where
  "as_boolean (JBool b) = Some b"
| "as_boolean _ = None"

text \<open>\<open>ORDER BY key DESC\<close>; the order among equal keys is the store's choice.\<close>

definition order_by_desc :: "('a \<Rightarrow> nat) \<Rightarrow> 'a list \<Rightarrow> 'a list" where
  "order_by_desc key rows = rev (sort_key key rows)"

definition has_user :: "world \<Rightarrow> string \<Rightarrow> bool" where
  "has_user w uid = (uid \<in> set (map u_id (users w)))"

text \<open>\<open>SELECT * FROM users WHERE id = ?\<close>\<close>

definition select_user :: "string \<Rightarrow> user_row list stmt" where
  "select_user uid w = Inr (filter (\<lambda>u. u_id u = uid) (users w), w)"

text \<open>\<open>INSERT INTO users (id, email, name, created_at, updated_at) VALUES (?, ?, ?, NOW(), NOW())\<close>;
  \<open>id\<close> is the primary key and \<open>email\<close> is unique.\<close>

definition insert_user :: "env \<Rightarrow> string \<Rightarrow> string \<Rightarrow> string \<Rightarrow> unit stmt" where
  "insert_user E uid em nm w =
     (if uid \<in> set (map u_id (users w)) \<or> em \<in> set (map u_email (users w))
      then Inl (Error ''Duplicate entry'')
      else case NOW E w of (t, w') \<Rightarrow>
        Inr ((), w'\<lparr>users := users w' @
               [\<lparr>u_id = uid, u_email = em, u_name = nm, u_created_at = t, u_updated_at = t\<rparr>]\<rparr>))"

text \<open>\<open>INSERT INTO quiz_responses (user_id, answers, analysis, created_at) VALUES (?, ?, ?, NOW())\<close>;
  \<open>user_id\<close> references \<open>users\<close>, \<open>id\<close> is an auto-increment \<open>INT\<close>.\<close>

definition insert_quiz :: "env \<Rightarrow> string \<Rightarrow> json \<Rightarrow> string \<Rightarrow> unit stmt" where
  "insert_quiz E uid ans an w =
     (if \<not> has_user w uid then Inl (Error ''Foreign key constraint fails'')
      else if quiz_next_id w > INT_MAX then Inl (Error ''Out of range value'')
      else case NOW E w of (t, w') \<Rightarrow>
        Inr ((), w'\<lparr>quiz_responses := quiz_responses w' @
               [\<lparr>q_id = quiz_next_id w, q_user_id = uid, q_answers = ans, q_analysis = an,
                 q_created_at = t\<rparr>],
               quiz_next_id := Suc (quiz_next_id w)\<rparr>))"

text \<open>The five body fields of a spending entry as bind parameters.\<close>

definition entry_fields ::
  "env \<Rightarrow> json option \<Rightarrow> json option \<Rightarrow> json option \<Rightarrow> json option \<Rightarrow> json option
     \<Rightarrow> error + (string \<times> int \<times> string \<times> string \<times> bool)" where
  "entry_fields E date amount description category isNecessary =
     (if None \<in> set [date, amount, description, category, isNecessary] then Inl bind_error
      else case (as_text (the date), as_decimal E (the amount), as_text (the description),
                 as_text (the category), as_boolean (the isNecessary)) of
             (Some d, Some a, Some ds, Some c, Some n) \<Rightarrow> Inr (d, a, ds, c, n)
           | _ \<Rightarrow> Inl value_error)"

text \<open>\<open>INSERT INTO spending_entries (user_id, date, amount, description, category,
  is_necessary, created_at) VALUES (?, ?, ?, ?, ?, ?, NOW())\<close>\<close>

definition insert_spending ::
  "env \<Rightarrow> string \<Rightarrow> json option \<Rightarrow> json option \<Rightarrow> json option \<Rightarrow> json option \<Rightarrow> json option
     \<Rightarrow> unit stmt" where
  "insert_spending E uid date amount description category isNecessary w =
     (case entry_fields E date amount description category isNecessary of
        Inl e \<Rightarrow> Inl e
      | Inr (d, a, ds, c, n) \<Rightarrow>
          if \<not> has_user w uid then Inl (Error ''Foreign key constraint fails'')
          else if spending_next_id w > INT_MAX then Inl (Error ''Out of range value'')
          else case NOW E w of (t, w') \<Rightarrow>
            Inr ((), w'\<lparr>spending_entries := spending_entries w' @
                   [\<lparr>se_id = spending_next_id w, se_user_id = uid, se_date = d, se_amount = a,
                     se_description = ds, se_category = c, se_is_necessary = n,
                     se_created_at = t\<rparr>],
                   spending_next_id := Suc (spending_next_id w)\<rparr>))"

text \<open>\<open>SELECT * FROM spending_entries WHERE user_id = ? [AND date = ?] ORDER BY created_at DESC\<close>\<close>

definition select_entries :: "string \<Rightarrow> string option \<Rightarrow> spending_row list stmt" where
  "select_entries uid date w =
     Inr (order_by_desc se_created_at
            (filter (\<lambda>e. se_user_id e = uid \<and> (case date of None \<Rightarrow> True | Some d \<Rightarrow> se_date e = d))
               (spending_entries w)), w)"

text \<open>\<open>SELECT * FROM spending_entries WHERE user_id = ? AND date = ?\<close>\<close>

definition select_entries_on :: "string \<Rightarrow> string option \<Rightarrow> spending_row list stmt" where
  "select_entries_on uid date w =
     (case date of
        None \<Rightarrow> Inl bind_error
      | Some d \<Rightarrow> Inr (filter (\<lambda>e. se_user_id e = uid \<and> se_date e = d) (spending_entries w), w))"

text \<open>\<open>SELECT * FROM spending_entries WHERE user_id = ? ORDER BY created_at DESC LIMIT 10\<close>\<close>

definition select_recent_entries :: "string \<Rightarrow> spending_row list stmt" where
  "select_recent_entries uid w =
     Inr (take 10 (order_by_desc se_created_at
                     (filter (\<lambda>e. se_user_id e = uid) (spending_entries w))), w)"

text \<open>The key comparison \<open>id = ?\<close> with the path segment bound as a string.\<close>

definition entry_matches :: "string \<Rightarrow> string \<Rightarrow> spending_row \<Rightarrow> bool" where
  "entry_matches entryId uid e = (parse_key entryId = Some (se_id e) \<and> se_user_id e = uid)"

text \<open>\<open>SELECT * FROM spending_entries WHERE id = ? AND user_id = ?\<close>\<close>

definition select_entry :: "string option \<Rightarrow> string \<Rightarrow> spending_row list stmt" where
  "select_entry entryId uid w =
     (case entryId of
        None \<Rightarrow> Inl bind_error
      | Some i \<Rightarrow> Inr (filter (entry_matches i uid) (spending_entries w), w))"

text \<open>\<open>UPDATE spending_entries SET date = ?, amount = ?, description = ?, category = ?,
  is_necessary = ? WHERE id = ? AND user_id = ?\<close>\<close>

definition update_entry ::
  "env \<Rightarrow> json option \<Rightarrow> json option \<Rightarrow> json option \<Rightarrow> json option \<Rightarrow> json option
     \<Rightarrow> string option \<Rightarrow> string \<Rightarrow> unit stmt" where
  "update_entry E date amount description category isNecessary entryId uid w =
     (case entry_fields E date amount description category isNecessary of
        Inl e \<Rightarrow> Inl e
      | Inr (d, a, ds, c, n) \<Rightarrow>
          (case entryId of
             None \<Rightarrow> Inl bind_error
           | Some i \<Rightarrow>
               Inr ((), w\<lparr>spending_entries :=
                      map (\<lambda>e. if entry_matches i uid e
                               then e\<lparr>se_date := d, se_amount := a, se_description := ds,
                                      se_category := c, se_is_necessary := n\<rparr>
                               else e) (spending_entries w)\<rparr>)))"

text \<open>\<open>DELETE FROM spending_entries WHERE id = ? AND user_id = ?\<close>\<close>

definition delete_entry :: "string option \<Rightarrow> string \<Rightarrow> unit stmt" where
  "delete_entry entryId uid w =
     (case entryId of
        None \<Rightarrow> Inl bind_error
      | Some i \<Rightarrow>
          Inr ((), w\<lparr>spending_entries :=
                 filter (\<lambda>e. \<not> entry_matches i uid e) (spending_entries w)\<rparr>))"

text \<open>\<open>SELECT * FROM savings_goals WHERE user_id = ?\<close>\<close>

definition select_goal :: "string \<Rightarrow> goal_row list stmt" where
  "select_goal uid w = Inr (filter (\<lambda>g. g_user_id g = uid) (savings_goals w), w)"

text \<open>\<open>INSERT INTO savings_goals (...) VALUES (?, ?, ?, ?, NOW(), NOW()) ON DUPLICATE KEY
  UPDATE monthly_income = ..., monthly_savings_goal = ..., savings_plan = ..., updated_at = NOW()\<close>;
  \<open>user_id\<close> is unique and references \<open>users\<close>.\<close>

definition upsert_goal :: "env \<Rightarrow> string \<Rightarrow> json option \<Rightarrow> json option \<Rightarrow> string \<Rightarrow> unit stmt" where
  "upsert_goal E uid monthlyIncome monthlySavingsGoal savingsPlan w =
     (if None \<in> set [monthlyIncome, monthlySavingsGoal] then Inl bind_error
      else case (as_decimal E (the monthlyIncome), as_decimal E (the monthlySavingsGoal)) of
        (Some inc, Some goal) \<Rightarrow>
          (case NOW E w of (t, w') \<Rightarrow>
             if uid \<in> set (map g_user_id (savings_goals w))
             then Inr ((), w'\<lparr>savings_goals :=
                          map (\<lambda>g. if g_user_id g = uid
                                   then g\<lparr>g_monthly_income := inc, g_monthly_savings_goal := goal,
                                          g_savings_plan := savingsPlan, g_updated_at := t\<rparr>
                                   else g) (savings_goals w')\<rparr>)
             else if \<not> has_user w uid then Inl (Error ''Foreign key constraint fails'')
             else if goals_next_id w > INT_MAX then Inl (Error ''Out of range value'')
             else Inr ((), w'\<lparr>savings_goals := savings_goals w' @
                          [\<lparr>g_id = goals_next_id w, g_user_id = uid, g_monthly_income = inc,
                            g_monthly_savings_goal = goal, g_savings_plan = savingsPlan,
                            g_created_at = t, g_updated_at = t\<rparr>],
                          goals_next_id := Suc (goals_next_id w)\<rparr>))
      | _ \<Rightarrow> Inl value_error)"

text \<open>\<open>INSERT INTO chat_messages (user_id, message, is_user, timestamp) VALUES (?, ?, ?, NOW())\<close>\<close>

definition insert_chat :: "env \<Rightarrow> string \<Rightarrow> json option \<Rightarrow> bool \<Rightarrow> unit stmt" where
  "insert_chat E uid msg is_user w =
     (case msg of
        None \<Rightarrow> Inl bind_error
      | Some j \<Rightarrow>
          (case as_text j of
             None \<Rightarrow> Inl value_error
           | Some m \<Rightarrow>
               if \<not> has_user w uid then Inl (Error ''Foreign key constraint fails'')
               else if chat_next_id w > INT_MAX then Inl (Error ''Out of range value'')
               else case NOW E w of (t, w') \<Rightarrow>
                 Inr ((), w'\<lparr>chat_messages := chat_messages w' @
                        [\<lparr>c_id = chat_next_id w, c_user_id = uid, c_message = m,
                          c_is_user = is_user, c_timestamp = t\<rparr>],
                        chat_next_id := Suc (chat_next_id w)\<rparr>)))"

text \<open>\<open>SELECT * FROM chat_messages WHERE user_id = ? ORDER BY timestamp DESC LIMIT 50\<close>\<close>

definition select_chat_history :: "string \<Rightarrow> chat_row list stmt" where
  "select_chat_history uid w =
     Inr (take 50 (order_by_desc c_timestamp
                     (filter (\<lambda>m. c_user_id m = uid) (chat_messages w))), w)"

text \<open>\<open>SELECT * FROM quiz_responses WHERE user_id = ? ORDER BY created_at DESC LIMIT 1\<close>\<close>

definition select_latest_quiz :: "string \<Rightarrow> quiz_row list stmt" where
  "select_latest_quiz uid w =
     Inr (take 1 (order_by_desc q_created_at
                    (filter (\<lambda>q. q_user_id q = uid) (quiz_responses w))), w)"

text \<open>\<open>SHOW TABLES\<close> and \<open>DESCRIBE t\<close>\<close>

definition metadata :: "env \<Rightarrow> string \<Rightarrow> json stmt" where
  "metadata E q w = Inr (schema_info E q, w)"


section \<open>Sequencing\<close>

text \<open>\<open>const x = await m; ...\<close>: a rejected promise ends the sequence, with the
  world as the failed step left it.\<close>

definition await :: "'a io \<Rightarrow> ('a \<Rightarrow> 'b io) \<Rightarrow> 'b io" where
  "await m f w = (case m w of (Inl e, w') \<Rightarrow> (Inl e, w') | (Inr x, w') \<Rightarrow> f x w')"

definition resolve :: "'a \<Rightarrow> 'a io" where
  "resolve x w = (Inr x, w)"

definition throw :: "error \<Rightarrow> 'a io" where
  "throw e w = (Inl e, w)"

text \<open>\<open>try { m } catch (err) { h }\<close>\<close>

definition try_catch :: "'a io \<Rightarrow> (error \<Rightarrow> 'a io) \<Rightarrow> 'a io" where
  "try_catch m h w = (case m w of (Inl e, w') \<Rightarrow> h e w' | (Inr x, w') \<Rightarrow> (Inr x, w'))"

text \<open>\<open>Date.now()\<close> and \<open>new Date()\<close>\<close>

definition date_now :: "env \<Rightarrow> nat io" where
  "date_now E w = (case read_clock E w of (t, w') \<Rightarrow> (Inr t, w'))"

text \<open>\<open>const { a, b } = JSON.parse(event.body)\<close>: the parse may throw, destructuring
  \<open>null\<close> throws, and a value that is no object has none of the members.\<close>

definition destructure :: "json option \<Rightarrow> error + (string \<Rightarrow> json option)" where
  "destructure b =
     (case b of
        None \<Rightarrow> Inl (Error ''SyntaxError'')
      | Some JNull \<Rightarrow> Inl (Error ''TypeError'')
      | Some (JObj kvs) \<Rightarrow> Inr (map_of kvs)
      | Some _ \<Rightarrow> Inr (\<lambda>k. None))"

text \<open>\<open>obj?.key\<close> on the event's parameter maps.\<close>

definition param :: "(string \<rightharpoonup> string) option \<Rightarrow> string \<Rightarrow> string option" where
  "param ps k = (case ps of None \<Rightarrow> None | Some m \<Rightarrow> m k)"

text \<open>\<open>const [row] = rows\<close>\<close>

definition first_row :: "'a list \<Rightarrow> 'a option" where
  "first_row rows = (case rows of [] \<Rightarrow> None | r # rs \<Rightarrow> Some r)"

text \<open>A row object as the driver returns it, one member per column.\<close>

definition user_json :: "user_row \<Rightarrow> json" where
  "user_json u =
     JObj [(''id'', JStr (u_id u)), (''email'', JStr (u_email u)), (''name'', JStr (u_name u)),
           (''created_at'', JDate (u_created_at u)), (''updated_at'', JDate (u_updated_at u))]"

definition entry_json :: "spending_row \<Rightarrow> json" where
  "entry_json e =
     JObj [(''id'', JNum (of_nat (se_id e))), (''user_id'', JStr (se_user_id e)),
           (''date'', JDay (se_date e)), (''amount'', JStr (decimal_text (se_amount e))),
           (''description'', JStr (se_description e)), (''category'', JStr (se_category e)),
           (''is_necessary'', JNum (if se_is_necessary e then 1 else 0)),
           (''created_at'', JDate (se_created_at e))]"

section \<open>Domain operation handlers\<close>

text \<open>\<open>answers.map(a => ... a.questionId ... a.answer ...)\<close> while the prompt is built:
  \<open>answers\<close> has to be an array without \<open>null\<close>.\<close>

definition answers_ok :: "json option \<Rightarrow> bool" where
  "answers_ok a = (case a of Some (JArr xs) \<Rightarrow> JNull \<notin> set xs | _ \<Rightarrow> False)"

definition handleQuizSubmit_try :: "env \<Rightarrow> event \<Rightarrow> payload \<Rightarrow> response io" where
  "handleQuizSubmit_try E ev userPayload =
     (case destructure (body ev) of
        Inl e \<Rightarrow> throw e
      | Inr f \<Rightarrow>
          await (executeQuery E (select_user (sub userPayload))) (\<lambda>existingUser.
          await (if existingUser = []
                 then executeQuery E (insert_user E (sub userPayload)
                        (the (js_or (email userPayload) (Some ''user@example.com'')))
                        (the (js_or (name userPayload) (Some ''User''))))
                 else resolve ()) (\<lambda>_.
          if \<not> answers_ok (f ''answers'') then throw (Error ''TypeError'')
          else
          await (callGemini E) (\<lambda>analysis.
          await (executeQuery E (insert_quiz E (sub userPayload) (the (f ''answers'')) analysis)) (\<lambda>_.
          await (date_now E) (\<lambda>t1.
          await (date_now E) (\<lambda>t2.
          resolve (createResponse 200 (success_body (JObj
            [(''id'', JStr (toString t1)), (''userId'', JStr (sub userPayload)),
             (''answers'', the (f ''answers'')), (''analysis'', JStr analysis),
             (''createdAt'', JDate t2)]))))))))))"

definition handleQuizSubmit :: "env \<Rightarrow> event \<Rightarrow> payload \<Rightarrow> response io" where
  "handleQuizSubmit E ev userPayload =
     try_catch (handleQuizSubmit_try E ev userPayload)
       (\<lambda>err. resolve (createResponse 500 (failure_body (message err))))"

definition handleAddSpendingEntry :: "env \<Rightarrow> event \<Rightarrow> payload \<Rightarrow> response io" where
  "handleAddSpendingEntry E ev userPayload =
     (case destructure (body ev) of
        Inl e \<Rightarrow> throw e
      | Inr f \<Rightarrow>
          await (executeQuery E (insert_spending E (sub userPayload) (f ''date'') (f ''amount'')
                   (f ''description'') (f ''category'') (f ''isNecessary''))) (\<lambda>_.
          await (date_now E) (\<lambda>t1.
          await (date_now E) (\<lambda>t2.
          resolve (createResponse 200 (success_body (mk_obj
            [(''id'', Some (JStr (toString t1))), (''userId'', Some (JStr (sub userPayload))),
             (''date'', f ''date''), (''amount'', f ''amount''),
             (''description'', f ''description''), (''category'', f ''category''),
             (''isNecessary'', f ''isNecessary''), (''createdAt'', Some (JDate t2))])))))))"

text \<open>The path's user id: the path parameter, or else the segment after the route's prefix.\<close>

definition path_user :: "event \<Rightarrow> string \<Rightarrow> string option" where
  "path_user ev pre =
     (let userId = param (pathParameters ev) ''userId''
      in if \<not> truthy userId then extractUserIdFromPath (path ev) pre else userId)"

definition handleGetSpendingEntries :: "env \<Rightarrow> event \<Rightarrow> payload option \<Rightarrow> response io" where
  "handleGetSpendingEntries E ev userPayload =
     (let userId = path_user ev ''/spending/entries/'';
          date = param (queryStringParameters ev) ''date''
      in if truthy userId \<and> userPayload \<noteq> None \<and> the userId \<noteq> sub (the userPayload)
         then resolve (createResponse 403 (failure_body ''Unauthorized''))
         else try_catch
           (let effectiveUserId = js_or userId (map_option sub userPayload)
            in if \<not> truthy effectiveUserId
               then resolve (createResponse 400 (failure_body ''Missing userId''))
               else await (executeQuery E (select_entries (the effectiveUserId)
                             (if truthy date then date else None))) (\<lambda>entries.
                    resolve (createResponse 200 (success_body (JArr (map entry_json entries))))))
           (\<lambda>err. resolve (createResponse 200 (success_body (JArr [])))))"

definition handleSetSavingsGoal :: "env \<Rightarrow> event \<Rightarrow> payload \<Rightarrow> response io" where
  "handleSetSavingsGoal E ev userPayload =
     (case destructure (body ev) of
        Inl e \<Rightarrow> throw e
      | Inr f \<Rightarrow>
          await (callGemini E) (\<lambda>savingsPlan.
          await (try_catch
                   (executeQuery E (upsert_goal E (sub userPayload) (f ''monthlyIncome'')
                      (f ''monthlySavingsGoal'') savingsPlan))
                   (\<lambda>err. resolve ())) (\<lambda>_.
          await (date_now E) (\<lambda>t1.
          await (date_now E) (\<lambda>t2.
          await (date_now E) (\<lambda>t3.
          resolve (createResponse 200 (success_body (mk_obj
            [(''id'', Some (JStr (toString t1))), (''userId'', Some (JStr (sub userPayload))),
             (''monthlyIncome'', f ''monthlyIncome''),
             (''monthlySavingsGoal'', f ''monthlySavingsGoal''),
             (''savingsPlan'', Some (JStr savingsPlan)),
             (''createdAt'', Some (JDate t2)), (''updatedAt'', Some (JDate t3))])))))))))"


text \<open>\<open>entries.reduce((sum, entry) => sum + entry.amount, 0)\<close>, where
  \<open>entry.amount\<close> is the text of a \<open>DECIMAL\<close> value: without an entry the result
  is the number 0; with entries, the first \<open>+\<close> turns the number 0 into the string
  \<open>0\<close> and appends the first amount, and every further \<open>+\<close> appends the next.\<close>

definition sum_amounts :: "spending_row list \<Rightarrow> jsval" where
  "sum_amounts entries =
     (case entries of
        [] \<Rightarrow> JsNum (Fin 0)
      | e # es \<Rightarrow>
          JsStr (foldl (\<lambda>sum entry. sum @ decimal_text (se_amount entry))
                   (''0'' @ decimal_text (se_amount e)) es))"

text \<open>The on-track computation of the daily analysis, from the day's total and the
  user's goal row (if any); \<open>monthly_income\<close> and \<open>monthly_savings_goal\<close> are texts
  too, which \<open>-\<close> converts to numbers, and \<open>0.8\<close> is the double next to 8/10.\<close>

definition dailyBudget :: "goal_row option \<Rightarrow> jsnum" where
  "dailyBudget savingsGoal =
     (case savingsGoal of
        Some g \<Rightarrow>
          js_div (js_sub (to_number (decimal_text (g_monthly_income g)))
                         (to_number (decimal_text (g_monthly_savings_goal g)))) (Fin 30)
      | None \<Rightarrow> Fin 0)"

definition onTrack :: "jsval \<Rightarrow> goal_row option \<Rightarrow> bool" where
  "onTrack totalSpent savingsGoal =
     js_le (ToNumber totalSpent) (js_mul (dailyBudget savingsGoal) (to_double (8 / 10)))"

definition handleGetDailyAnalysis :: "env \<Rightarrow> event \<Rightarrow> payload \<Rightarrow> response io" where
  "handleGetDailyAnalysis E ev userPayload =
     (let userId = path_user ev ''/analysis/daily/'';
          date = param (queryStringParameters ev) ''date''
      in if userId \<noteq> Some (sub userPayload)
         then resolve (createResponse 403 (failure_body ''Unauthorized''))
         else
           await (executeQuery E (select_entries_on (sub userPayload) date)) (\<lambda>entries.
           let totalSpent = sum_amounts entries;
               necessarySpent = sum_amounts (filter se_is_necessary entries);
               unnecessarySpent = js_sub (ToNumber totalSpent) (ToNumber necessarySpent)
           in
           await (executeQuery E (select_goal (sub userPayload))) (\<lambda>goals.
           let savingsGoal = first_row goals
           in
           await (callGemini E) (\<lambda>analysis.
           resolve (createResponse 200 (success_body (mk_obj
             [(''date'', map_option JStr date),
              (''totalSpent'', Some (json_of totalSpent)),
              (''necessarySpent'', Some (json_of necessarySpent)),
              (''unnecessarySpent'', Some (json_of_num unnecessarySpent)),
              (''onTrack'', Some (JBool (onTrack totalSpent savingsGoal))),
              (''analysis'', Some (JStr analysis)),
              (''recommendations'', Some (JArr
                 [JStr (if onTrack totalSpent savingsGoal
                        then ''Great job staying within budget!''
                        else ''Consider reducing unnecessary expenses''),
                  JStr ''Track your spending daily to stay on top of your goals'',
                  JStr ''Review your budget weekly to make adjustments'']))])))))))"

definition handleChatMessage :: "env \<Rightarrow> event \<Rightarrow> payload \<Rightarrow> response io" where
  "handleChatMessage E ev userPayload =
     (case destructure (body ev) of
        Inl e \<Rightarrow> throw e
      | Inr f \<Rightarrow>
          await (executeQuery E (select_goal (sub userPayload))) (\<lambda>goals.
          await (executeQuery E (select_recent_entries (sub userPayload))) (\<lambda>recentEntries.
          await (callGemini E) (\<lambda>response.
          await (executeQuery E (insert_chat E (sub userPayload) (f ''message'') True)) (\<lambda>_.
          await (executeQuery E (insert_chat E (sub userPayload) (Some (JStr response)) False)) (\<lambda>_.
          await (date_now E) (\<lambda>t1.
          await (date_now E) (\<lambda>t2.
          resolve (createResponse 200 (success_body (JObj
            [(''id'', JStr (toString t1)), (''userId'', JStr (sub userPayload)),
             (''message'', JStr response), (''isUser'', JBool False),
             (''timestamp'', JDate t2)])))))))))))"

text \<open>\<open>JSON.parse(quizResponse.answers)\<close>: the driver hands a \<open>JSON\<close> column
  over parsed already, so \<open>JSON.parse\<close> first converts the value to a string. The
  empty array gives the empty text, and an object or an array that starts with an object gives
  a text that starts with \<open>[object Object]\<close>: none of these parses. \<open>null\<close>, a
  boolean and a number come back as they are. What the text of any other value parses to is
  the engine's answer, \<open>json_of_text\<close>.\<close>

fun reparse :: "env \<Rightarrow> json \<Rightarrow> error + json" where
  "reparse E JNull = Inr JNull"
| "reparse E (JBool b) = Inr (JBool b)"
| "reparse E (JNum r) = Inr (JNum r)"
| "reparse E (JObj kvs) = Inl (Error ''SyntaxError'')"
| "reparse E (JArr []) = Inl (Error ''SyntaxError'')"
| "reparse E (JArr (JObj kvs # xs)) = Inl (Error ''SyntaxError'')"
| "reparse E v = (case json_of_text E v of None \<Rightarrow> Inl (Error ''SyntaxError'') | Some j \<Rightarrow> Inr j)"

definition handleGetQuizAnalysis :: "env \<Rightarrow> event \<Rightarrow> payload \<Rightarrow> response io" where
  "handleGetQuizAnalysis E ev userPayload =
     (let userId = param (pathParameters ev) ''userId''
      in if userId \<noteq> Some (sub userPayload)
         then resolve (createResponse 403 (failure_body ''Unauthorized''))
         else
           await (executeQuery E (select_latest_quiz (sub userPayload))) (\<lambda>rows.
           case first_row rows of
             None \<Rightarrow> resolve (createResponse 404 (failure_body ''Quiz not found''))
           | Some quizResponse \<Rightarrow>
               (case reparse E (q_answers quizResponse) of
                  Inl e \<Rightarrow> throw e
                | Inr answers \<Rightarrow>
                    resolve (createResponse 200 (success_body (JObj
                      [(''id'', JStr (toString (q_id quizResponse))),
                       (''userId'', JStr (q_user_id quizResponse)),
                       (''answers'', answers),
                       (''analysis'', JStr (q_analysis quizResponse)),
                       (''createdAt'', JDate (q_created_at quizResponse))]))))))"

definition handleGetSavingsGoal :: "env \<Rightarrow> event \<Rightarrow> payload \<Rightarrow> response io" where
  "handleGetSavingsGoal E ev userPayload =
     (let userId = param (pathParameters ev) ''userId''
      in if userId \<noteq> Some (sub userPayload)
         then resolve (createResponse 403 (failure_body ''Unauthorized''))
         else
           await (executeQuery E (select_goal (sub userPayload))) (\<lambda>rows.
           case first_row rows of
             None \<Rightarrow> resolve (createResponse 404 (failure_body ''Savings goal not found''))
           | Some savingsGoal \<Rightarrow>
               resolve (createResponse 200 (success_body (JObj
                 [(''id'', JStr (toString (g_id savingsGoal))),
                  (''userId'', JStr (g_user_id savingsGoal)),
                  (''monthlyIncome'',
                     json_of_num (parseFloat (decimal_text (g_monthly_income savingsGoal)))),
                  (''monthlySavingsGoal'',
                     json_of_num (parseFloat (decimal_text (g_monthly_savings_goal savingsGoal)))),
                  (''savingsPlan'', JStr (g_savings_plan savingsGoal)),
                  (''createdAt'', JDate (g_created_at savingsGoal)),
                  (''updatedAt'', JDate (g_updated_at savingsGoal))])))))"

definition handleUpdateSpendingEntry :: "env \<Rightarrow> event \<Rightarrow> payload \<Rightarrow> response io" where
  "handleUpdateSpendingEntry E ev userPayload =
     (let entryId = param (pathParameters ev) ''id''
      in case destructure (body ev) of
           Inl e \<Rightarrow> throw e
         | Inr f \<Rightarrow>
             await (executeQuery E (select_entry entryId (sub userPayload))) (\<lambda>rows.
             case first_row rows of
               None \<Rightarrow> resolve (createResponse 404 (failure_body ''Entry not found''))
             | Some existingEntry \<Rightarrow>
                 await (executeQuery E (update_entry E (f ''date'') (f ''amount'') (f ''description'')
                          (f ''category'') (f ''isNecessary'') entryId (sub userPayload))) (\<lambda>_.
                 resolve (createResponse 200 (success_body (mk_obj
                   [(''id'', map_option JStr entryId),
                    (''userId'', Some (JStr (sub userPayload))),
                    (''date'', f ''date''), (''amount'', f ''amount''),
                    (''description'', f ''description''), (''category'', f ''category''),
                    (''isNecessary'', f ''isNecessary''),
                    (''createdAt'', Some (JDate (se_created_at existingEntry)))]))))))"

definition handleDeleteSpendingEntry :: "env \<Rightarrow> event \<Rightarrow> payload \<Rightarrow> response io" where
  "handleDeleteSpendingEntry E ev userPayload =
     (let entryId = param (pathParameters ev) ''id''
      in await (executeQuery E (select_entry entryId (sub userPayload))) (\<lambda>rows.
         case first_row rows of
           None \<Rightarrow> resolve (createResponse 404 (failure_body ''Entry not found''))
         | Some existingEntry \<Rightarrow>
             await (executeQuery E (delete_entry entryId (sub userPayload))) (\<lambda>_.
             resolve (createResponse 200 (success_body JNull)))))"

definition message_json :: "chat_row \<Rightarrow> json" where
  "message_json msg =
     JObj [(''id'', JStr (toString (c_id msg))), (''userId'', JStr (c_user_id msg)),
           (''message'', JStr (c_message msg)), (''isUser'', JBool (c_is_user msg)),
           (''timestamp'', JDate (c_timestamp msg))]"

definition handleGetChatHistory :: "env \<Rightarrow> event \<Rightarrow> payload \<Rightarrow> response io" where
  "handleGetChatHistory E ev userPayload =
     (let userId = path_user ev ''/chat/history/''
      in if userId \<noteq> Some (sub userPayload)
         then resolve (createResponse 403 (failure_body ''Unauthorized''))
         else
           await (executeQuery E (select_chat_history (sub userPayload))) (\<lambda>messages.
           resolve (createResponse 200 (success_body (JArr (map message_json messages))))))"

section \<open>Router\<close>

text \<open>The normalised path: the proxy parameter when there is one, else the path (or the
  resource) without the stage prefix.\<close>

definition clean_path :: "event \<Rightarrow> error + string" where
  "clean_path ev =
     (let actualPath = js_or (path ev) (resource ev);
          proxy = param (pathParameters ev) ''proxy''
      in if truthy proxy then Inr (''/'' @ the proxy)
         else case actualPath of
                None \<Rightarrow> Inl (Error ''TypeError'')
              | Some a \<Rightarrow>
                  (let cleanPath = (if startsWith a ''/dev/'' then drop 4 a else a)
                   in Inr (if cleanPath = [] then ''/'' else cleanPath)))"

definition open_paths :: "string list" where
  "open_paths = [''/health'', ''/test-db'', ''/test-gemini'', ''/test-schema'', ''/debug'']"

text \<open>The routes that need no token: health check and diagnostic probes.\<close>

definition probe :: "env \<Rightarrow> event \<Rightarrow> string \<Rightarrow> response io" where
  "probe E ev cleanPath =
     (if cleanPath = ''/health''
      then resolve (createResponse 200 (JObj [(''status'', JStr ''healthy'')]))
      else if cleanPath = ''/test-db''
      then try_catch
             (await (executeQuery E (\<lambda>w. Inr ((), w))) (\<lambda>_.
              resolve (createResponse 200 (JObj [(''status'', JStr ''database connected'')]))))
             (\<lambda>err. resolve (createResponse 500 (JObj [(''error'', JStr (message err))])))
      else if cleanPath = ''/test-gemini''
      then try_catch
             (await (callGemini E) (\<lambda>response.
              resolve (createResponse 200
                (JObj [(''status'', JStr ''gemini working''), (''response'', JStr response)]))))
             (\<lambda>err. resolve (createResponse 500 (JObj [(''error'', JStr (message err))])))
      else if cleanPath = ''/debug''
      then resolve (createResponse 200 (mk_obj
             [(''message'', Some (JStr ''Debug endpoint working'')),
              (''path'', Some (JStr cleanPath)),
              (''originalPath'', map_option JStr (path ev)),
              (''actualPath'', map_option JStr (js_or (path ev) (resource ev)))]))
      else try_catch
             (await (executeQuery E (metadata E ''SHOW TABLES'')) (\<lambda>tables.
              await (executeQuery E (metadata E ''DESCRIBE quiz_responses'')) (\<lambda>quizTableStructure.
              await (executeQuery E (metadata E ''DESCRIBE users'')) (\<lambda>usersTableStructure.
              await (executeQuery E (select_user ''41d30dea-2041-707f-953d-b18011ab9d80'')) (\<lambda>userExists.
              resolve (createResponse 200 (JObj
                [(''status'', JStr ''schema check''), (''tables'', tables),
                 (''quizTableStructure'', quizTableStructure),
                 (''usersTableStructure'', usersTableStructure),
                 (''userExists'', JArr (map user_json userExists))])))))))
             (\<lambda>err. resolve (createResponse 500 (JObj [(''error'', JStr (message err))]))))"

text \<open>The handler table, in the order of the source.\<close>

definition dispatch :: "env \<Rightarrow> event \<Rightarrow> string \<Rightarrow> payload \<Rightarrow> response io" where
  "dispatch E ev cleanPath userPayload =
     (let m = httpMethod ev
      in if m = ''POST'' \<and> cleanPath = ''/quiz/submit'' then handleQuizSubmit E ev userPayload
         else if m = ''POST'' \<and> cleanPath = ''/spending/entry'' then handleAddSpendingEntry E ev userPayload
         else if m = ''GET'' \<and> startsWith cleanPath ''/spending/entries/''
           then handleGetSpendingEntries E ev (Some userPayload)
         else if m = ''POST'' \<and> cleanPath = ''/savings/goal'' then handleSetSavingsGoal E ev userPayload
         else if m = ''GET'' \<and> startsWith cleanPath ''/analysis/daily/''
           then handleGetDailyAnalysis E ev userPayload
         else if m = ''POST'' \<and> cleanPath = ''/chat/message'' then handleChatMessage E ev userPayload
         else if m = ''GET'' \<and> startsWith cleanPath ''/quiz/analysis/''
           then handleGetQuizAnalysis E ev userPayload
         else if m = ''GET'' \<and> startsWith cleanPath ''/savings/goal/''
           then handleGetSavingsGoal E ev userPayload
         else if m = ''PUT'' \<and> startsWith cleanPath ''/spending/entry/''
           then handleUpdateSpendingEntry E ev userPayload
         else if m = ''DELETE'' \<and> startsWith cleanPath ''/spending/entry/''
           then handleDeleteSpendingEntry E ev userPayload
         else if m = ''GET'' \<and> startsWith cleanPath ''/chat/history/''
           then handleGetChatHistory E ev userPayload
         else resolve (createResponse 404 (failure_body ''Not found'')))"

text \<open>The \<open>try\<close> block of the Lambda handler. A path on the open list returns from its
  probe before any handler is reached, every other path has its token verified first.\<close>

definition route :: "env \<Rightarrow> event \<Rightarrow> response io" where
  "route E ev =
     (case clean_path ev of
        Inl e \<Rightarrow> throw e
      | Inr cleanPath \<Rightarrow>
          if cleanPath \<in> set open_paths then probe E ev cleanPath
          else (case verifyToken E ev of
                  Inl e \<Rightarrow> throw e
                | Inr userPayload \<Rightarrow> dispatch E ev cleanPath userPayload))"

text \<open>\<open>exports.handler\<close>: the preflight short cut, and the outermost \<open>catch\<close>.\<close>

definition handler :: "env \<Rightarrow> event \<Rightarrow> world \<Rightarrow> response \<times> world" where
  "handler E ev w =
     (if httpMethod ev = ''OPTIONS'' then (createResponse 200 (JObj []), w)
      else case route E ev w of
             (Inr r, w') \<Rightarrow> (r, w')
           | (Inl err, w') \<Rightarrow>
               (createResponse 500
                  (failure_body (if message err = [] then ''Internal server error'' else message err)),
                w'))"


section \<open>Observations on a run\<close>

text \<open>Between the world before a run and the world after it, some call to the store was
  at fault.\<close>

definition store_faulted :: "env \<Rightarrow> world \<Rightarrow> world \<Rightarrow> bool" where
  "store_faulted E w w' = list_ex (\<lambda>n. db_fault E n \<noteq> None) [db_calls w ..< db_calls w']"

section \<open>A sample deployment\<close>

text \<open>Two users, a working store and provider, and a clock that advances by a tenth of a
  second per reading; the concrete requests below are evaluated on it.\<close>

definition alice :: payload where
  "alice = \<lparr>sub = ''abc'', email = Some ''abc@example.com'', name = Some ''Abc''\<rparr>"

definition bob :: payload where
  "bob = \<lparr>sub = ''xyz'', email = Some ''xyz@example.com'', name = None\<rparr>"

definition demo_env :: env where
  "demo_env =
     \<lparr>verify = (\<lambda>t. if t = ''token-abc'' then Some alice
                     else if t = ''token-xyz'' then Some bob else None),
      GEMINI_API_KEY = Some ''key'',
      wall_clock = (\<lambda>n. 1757750400000 + 100 * n),
      db_fault = (\<lambda>n. None),
      gemini_reply = (\<lambda>n. Responded (Some ''Spend less on coffee.'')),
      schema_info = (\<lambda>q. JArr []),
      to_decimal = (\<lambda>r. if \<bar>r\<bar> < 100000000 then Some (round (r * 100)) else None),
      json_of_text = (\<lambda>v. None)\<rparr>"

text \<open>The same deployment with the store unreachable, with a provider that answers
  without any candidate, and with a provider that cannot be reached.\<close>

definition store_down_env :: env where
  "store_down_env = demo_env\<lparr>db_fault := (\<lambda>n. Some ''connect ECONNREFUSED'')\<rparr>"

definition empty_reply_env :: env where
  "empty_reply_env = demo_env\<lparr>gemini_reply := (\<lambda>n. Responded None)\<rparr>"

definition provider_down_env :: env where
  "provider_down_env = demo_env\<lparr>gemini_reply := (\<lambda>n. RequestFailed)\<rparr>"

definition user_of :: "payload \<Rightarrow> string \<Rightarrow> user_row" where
  "user_of p em = \<lparr>u_id = sub p, u_email = em, u_name = ''User'',
                   u_created_at = 1757000000000, u_updated_at = 1757000000000\<rparr>"

definition spent :: "nat \<Rightarrow> string \<Rightarrow> string \<Rightarrow> int \<Rightarrow> bool \<Rightarrow> spending_row" where
  "spent i uid d a n =
     \<lparr>se_id = i, se_user_id = uid, se_date = d, se_amount = a, se_description = ''Groceries'',
      se_category = ''Food & Dining'', se_is_necessary = n, se_created_at = 1757700000000\<rparr>"

definition demo_world :: world where
  "demo_world =
     \<lparr>users = [user_of alice ''abc@example.com'', user_of bob ''xyz@example.com''],
      quiz_responses = [],
      spending_entries =
        [spent 1 ''abc'' ''2025-09-13'' 3000 True, spent 2 ''abc'' ''2025-09-13'' 2500 False,
         spent 3 ''xyz'' ''2025-09-13'' 1200 True],
      savings_goals =
        [\<lparr>g_id = 1, g_user_id = ''abc'', g_monthly_income = 300000,
          g_monthly_savings_goal = 90000,
          g_savings_plan = ''Save first.'', g_created_at = 1757000000000,
          g_updated_at = 1757000000000\<rparr>],
      chat_messages = [],
      quiz_next_id = 1, spending_next_id = 4, goals_next_id = 2, chat_next_id = 1,
      clock_reads = 0, db_calls = 0, gemini_calls = 0\<rparr>"

text \<open>The same world with one entry only, of the given amount in hundredths.\<close>

definition one_entry_world :: "int \<Rightarrow> world" where
  "one_entry_world c = demo_world\<lparr>spending_entries := [spent 1 ''abc'' ''2025-09-13'' c False]\<rparr>"

text \<open>The sample world after two chat turns a minute apart.\<close>

definition said :: "nat \<Rightarrow> string \<Rightarrow> bool \<Rightarrow> nat \<Rightarrow> chat_row" where
  "said i m u t = \<lparr>c_id = i, c_user_id = ''abc'', c_message = m, c_is_user = u, c_timestamp = t\<rparr>"

definition chat_world :: world where
  "chat_world =
     demo_world\<lparr>chat_messages :=
                  [said 1 ''How can I save more?'' True 1757750000000,
                   said 2 ''Spend less on coffee.'' False 1757750002000,
                   said 3 ''And on rent?'' True 1757750060000,
                   said 4 ''Rent is fixed.'' False 1757750063000],
                chat_next_id := 5\<rparr>"

definition request ::
  "string \<Rightarrow> string \<Rightarrow> (string \<rightharpoonup> string) \<Rightarrow> (string \<rightharpoonup> string) \<Rightarrow> string \<Rightarrow> json option \<Rightarrow> event" where
  "request m p pps qs tok b =
     \<lparr>httpMethod = m, path = Some p, resource = None, pathParameters = Some pps,
      queryStringParameters = Some qs, headers = Some [''Authorization'' \<mapsto> ''Bearer '' @ tok],
      body = b\<rparr>"

definition daily_request :: event where
  "daily_request =
     request ''GET'' ''/analysis/daily/abc'' [''userId'' \<mapsto> ''abc''] [''date'' \<mapsto> ''2025-09-13'']
       ''token-abc'' None"

definition goal_request :: "string \<Rightarrow> string \<Rightarrow> event" where
  "goal_request uid tok =
     request ''GET'' (''/savings/goal/'' @ uid) [''userId'' \<mapsto> uid] Map.empty tok None"

definition no_token_request :: event where
  "no_token_request = (goal_request ''abc'' ''token-abc'')\<lparr>headers := None\<rparr>"

definition list_request :: event where
  "list_request =
     request ''GET'' ''/spending/entries/abc'' [''userId'' \<mapsto> ''abc''] [''date'' \<mapsto> ''2025-09-14'']
       ''token-abc'' None"

definition coffee :: json where
  "coffee = JObj [(''date'', JStr ''2025-09-14''), (''amount'', JNum (51 / 2)),
                  (''description'', JStr ''Coffee and breakfast''),
                  (''category'', JStr ''Food & Dining''), (''isNecessary'', JBool True)]"

definition add_request :: event where
  "add_request = request ''POST'' ''/spending/entry'' Map.empty Map.empty ''token-abc'' (Some coffee)"

definition update_request :: "string \<Rightarrow> string \<Rightarrow> event" where
  "update_request i tok =
     request ''PUT'' (''/spending/entry/'' @ i) [''id'' \<mapsto> i] Map.empty tok (Some coffee)"

definition delete_request :: "string \<Rightarrow> string \<Rightarrow> event" where
  "delete_request i tok =
     request ''DELETE'' (''/spending/entry/'' @ i) [''id'' \<mapsto> i] Map.empty tok None"

definition set_goal_request :: event where
  "set_goal_request =
     request ''POST'' ''/savings/goal'' Map.empty Map.empty ''token-abc''
       (Some (JObj [(''monthlyIncome'', JNum 3000), (''monthlySavingsGoal'', JNum 900)]))"

definition chat_request :: event where
  "chat_request =
     request ''POST'' ''/chat/message'' Map.empty Map.empty ''token-abc''
       (Some (JObj [(''message'', JStr ''How can I save more?'')]))"

definition history_request :: event where
  "history_request =
     request ''GET'' ''/chat/history/abc'' [''userId'' \<mapsto> ''abc''] Map.empty ''token-abc'' None"

section \<open>Properties\<close>

lemmas fixture_defs = alice_def bob_def demo_env_def store_down_env_def empty_reply_env_def
  provider_down_env_def user_of_def spent_def demo_world_def one_entry_world_def request_def
  daily_request_def goal_request_def no_token_request_def list_request_def coffee_def
  add_request_def update_request_def delete_request_def set_goal_request_def chat_request_def
  history_request_def said_def chat_world_def

lemmas run_defs = await_def resolve_def throw_def try_catch_def executeQuery_def callGemini_def
  callGemini_try_def date_now_def read_clock_def NOW_def createResponse_def param_def
  first_row_def path_user_def js_or_def success_body_def failure_body_def mk_obj_def
  destructure_def Let_def

lemma member_mk_obj: "map_of kvs k = Some (Some v) \<Longrightarrow> member (mk_obj kvs) k = Some v"
  unfolding mk_obj_def
  by (induction kvs) (auto split: option.splits if_splits)

subsection \<open>Steps of a run\<close>

lemma await_InrE:
  assumes "await m f w = (Inr y, w')"
  obtains x w1 where "m w = (Inr x, w1)" and "f x w1 = (Inr y, w')"
  using assms by (auto simp: await_def split: prod.splits sum.splits)

lemma await_Inl:
  "m w = (Inl e, w1) \<Longrightarrow> await m f w = (Inl e, w1)"
  by (simp add: await_def)

lemma await_Inr:
  "m w = (Inr x, w1) \<Longrightarrow> await m f w = f x w1"
  by (simp add: await_def)

lemma executeQuery_fault:
  "db_fault E (db_calls w) = Some m \<Longrightarrow>
     executeQuery E st w = (Inl (Error m), w\<lparr>db_calls := Suc (db_calls w)\<rparr>)"
  by (simp add: executeQuery_def)

lemma executeQuery_Inr:
  assumes "executeQuery E st w = (Inr x, w')"
  shows "db_fault E (db_calls w) = None" and "st (w\<lparr>db_calls := Suc (db_calls w)\<rparr>) = Inr (x, w')"
  using assms by (auto simp: executeQuery_def Let_def split: option.splits sum.splits)

lemma executeQuery_tables:
  assumes "executeQuery E st w = (res, w')"
      and "\<And>w1 x w2. st w1 = Inr (x, w2) \<Longrightarrow> spending_entries w2 = spending_entries w1"
  shows "spending_entries w' = spending_entries w"
  using assms(1) assms(2) [of "w\<lparr>db_calls := Suc (db_calls w)\<rparr>"]
  by (auto simp: executeQuery_def Let_def split: option.splits sum.splits)

text \<open>No statement counts store calls.\<close>

lemma NOW_calls: "NOW E w = (t, w') \<Longrightarrow> db_calls w' = db_calls w"
  by (auto simp: NOW_def read_clock_def)

lemma stmt_calls:
  "select_user uid w = Inr (us, w2) \<Longrightarrow> db_calls w2 = db_calls w"
  "insert_user E uid em nm w = Inr (u, w2) \<Longrightarrow> db_calls w2 = db_calls w"
  "insert_quiz E uid ans an w = Inr (u, w2) \<Longrightarrow> db_calls w2 = db_calls w"
  "insert_spending E uid d a ds c n w = Inr (u, w2) \<Longrightarrow> db_calls w2 = db_calls w"
  "select_entries uid dt w = Inr (es, w2) \<Longrightarrow> db_calls w2 = db_calls w"
  "select_entries_on uid dt w = Inr (es, w2) \<Longrightarrow> db_calls w2 = db_calls w"
  "select_recent_entries uid w = Inr (es, w2) \<Longrightarrow> db_calls w2 = db_calls w"
  "select_entry i uid w = Inr (es, w2) \<Longrightarrow> db_calls w2 = db_calls w"
  "update_entry E d a ds c n i uid w = Inr (u, w2) \<Longrightarrow> db_calls w2 = db_calls w"
  "delete_entry i uid w = Inr (u, w2) \<Longrightarrow> db_calls w2 = db_calls w"
  "select_goal uid w = Inr (gs, w2) \<Longrightarrow> db_calls w2 = db_calls w"
  "upsert_goal E uid inc sg pl w = Inr (u, w2) \<Longrightarrow> db_calls w2 = db_calls w"
  "insert_chat E uid msg b w = Inr (u, w2) \<Longrightarrow> db_calls w2 = db_calls w"
  "select_chat_history uid w = Inr (ms, w2) \<Longrightarrow> db_calls w2 = db_calls w"
  "select_latest_quiz uid w = Inr (qs, w2) \<Longrightarrow> db_calls w2 = db_calls w"
  "metadata E q w = Inr (j, w2) \<Longrightarrow> db_calls w2 = db_calls w"
  by (auto simp: select_user_def insert_user_def insert_quiz_def insert_spending_def
      select_entries_def select_entries_on_def select_recent_entries_def select_entry_def
      update_entry_def delete_entry_def select_goal_def upsert_goal_def insert_chat_def
      select_chat_history_def select_latest_quiz_def metadata_def NOW_def read_clock_def
      split: if_splits option.splits sum.splits prod.splits)

lemma executeQuery_step:
  assumes "executeQuery E st w = (Inr x, w')"
      and "\<And>w1 y w2. st w1 = Inr (y, w2) \<Longrightarrow> db_calls w2 = db_calls w1"
  shows "db_fault E (db_calls w) = None \<and> db_calls w' = Suc (db_calls w)"
  using executeQuery_Inr [OF assms(1)] assms(2) by fastforce

lemma executeQuery_any:
  assumes "executeQuery E st w = (res, w')"
      and "\<And>w1 y w2. st w1 = Inr (y, w2) \<Longrightarrow> db_calls w2 = db_calls w1"
  shows "db_calls w' = Suc (db_calls w)"
  using assms(1) assms(2) [of "w\<lparr>db_calls := Suc (db_calls w)\<rparr>"]
  by (auto simp: executeQuery_def Let_def split: option.splits sum.splits)

lemma callGemini_calls: "callGemini E w = (res, w') \<Longrightarrow> db_calls w' = db_calls w"
  by (auto simp: callGemini_def Let_def split: if_splits sum.splits)

lemma date_now_calls: "date_now E w = (res, w') \<Longrightarrow> db_calls w' = db_calls w"
  by (auto simp: date_now_def read_clock_def)

lemma resolve_eq: "resolve x w = (res, w') \<Longrightarrow> res = Inr x \<and> w' = w"
  by (auto simp: resolve_def)

lemma throw_eq: "throw e w = (res, w') \<Longrightarrow> res = Inl e \<and> w' = w"
  by (auto simp: throw_def)

lemma store_faulted_same: "db_calls w' = db_calls w \<Longrightarrow> \<not> store_faulted E w w'"
  by (simp add: store_faulted_def)

lemma store_faulted_iff:
  "store_faulted E w w' \<longleftrightarrow> (\<exists>n. db_calls w \<le> n \<and> n < db_calls w' \<and> db_fault E n \<noteq> None)"
  by (auto simp: store_faulted_def list_ex_iff)


lemma await_cases:
  assumes "await m f w = (res, w')"
  obtains (thrown) e where "m w = (Inl e, w')" "res = Inl e"
        | (resolved) x w1 where "m w = (Inr x, w1)" "f x w1 = (res, w')"
  using assms by (auto simp: await_def split: prod.splits sum.splits)

lemma executeQuery_frame:
  assumes "executeQuery E st w = (res, w')"
      and "\<And>w1 x w2. st w1 = Inr (x, w2) \<Longrightarrow> g (spending_entries w2) = g (spending_entries w1)"
  shows "g (spending_entries w') = g (spending_entries w)"
  using assms(1) assms(2) [of "w\<lparr>db_calls := Suc (db_calls w)\<rparr>"]
  by (auto simp: executeQuery_def Let_def split: option.splits sum.splits)

lemma executeQuery_Inl_tables:
  "executeQuery E st w = (Inl e, w') \<Longrightarrow> w' = w\<lparr>db_calls := Suc (db_calls w)\<rparr>"
  by (auto simp: executeQuery_def Let_def split: option.splits sum.splits)

lemma callGemini_world:
  "callGemini E w = (res, w') \<Longrightarrow> w' = w \<or> w' = w\<lparr>gemini_calls := Suc (gemini_calls w)\<rparr>"
  by (auto simp: callGemini_def Let_def split: if_splits sum.splits)

lemma try_catch_cases:
  assumes "try_catch m h w = (res, w')"
  obtains (ok) x where "m w = (Inr x, w')" "res = Inr x"
        | (caught) e w1 where "m w = (Inl e, w1)" "h e w1 = (res, w')"
  using assms by (auto simp: try_catch_def split: prod.splits sum.splits)

subsection \<open>Evaluating numbers\<close>

lemma floor_rat_numeral: "\<lfloor>numeral a / numeral b :: rat\<rfloor> = numeral a div numeral b"
  by (metis floor_divide_of_int_eq of_int_numeral)

lemma floor_rat_minus_numeral: "\<lfloor>- (numeral a / numeral b) :: rat\<rfloor> = - numeral a div numeral b"
  by (metis divide_minus_left floor_divide_of_int_eq of_int_neg_numeral of_int_numeral)

lemmas num_defs = to_number_def parseFloat_def split_sign_def decimal_value_def is_digit_def
  digit_val_def to_double_def exponent_def ulp_def round_even_def halvings.simps doublings.simps
  decimal_text_def toString.simps digit_char_def signed_inf_def upt_rec Let_def
  floor_rat_numeral floor_rat_minus_numeral

subsection \<open>C1: the on-track rule of the daily analysis\<close>

text \<open>The text of a \<open>DECIMAL\<close> value has a point, so the concatenation of the texts of
  two or more amounts has two or more points and converts to no number.\<close>

lemma marks_dropWhile:
  "filter (\<lambda>c. \<not> is_digit c) (dropWhile is_digit s) = filter (\<lambda>c. \<not> is_digit c) s"
  by (induction s) simp_all

lemma to_number_two_marks:
  assumes "2 \<le> length (filter (\<lambda>c. \<not> is_digit c) s)"
      and "s = c0 # t" and "is_digit c0"
  shows "to_number s = NaN"
proof -
  from assms(2,3) have sign: "split_sign s = (False, s)"
    by (auto simp: split_sign_def is_digit_def digit_val_def upt_rec)
  from assms(1) have m: "2 \<le> length (filter (\<lambda>c. \<not> is_digit c) (dropWhile is_digit s))"
    by (simp add: marks_dropWhile)
  then obtain c fp where rest: "dropWhile is_digit s = c # fp"
    by (cases "dropWhile is_digit s") auto
  with m have "filter (\<lambda>c. \<not> is_digit c) fp \<noteq> []"
    by (auto split: if_splits)
  then have "\<not> list_all is_digit fp"
    by (auto simp: list_all_iff filter_empty_conv)
  with sign rest assms(2) show ?thesis
    by (simp add: to_number_def Let_def)
qed

lemma decimal_text_mark: "1 \<le> length (filter (\<lambda>c. \<not> is_digit c) (decimal_text c))"
  by (simp add: decimal_text_def is_digit_def digit_val_def upt_rec)

lemma foldl_amounts_marks:
  "length (filter (\<lambda>c. \<not> is_digit c) acc) + length es
     \<le> length (filter (\<lambda>c. \<not> is_digit c)
                 (foldl (\<lambda>sum entry. sum @ decimal_text (se_amount entry)) acc es))"
proof (induction es arbitrary: acc)
  case Nil
  show ?case by simp
next
  case (Cons e es)
  from Cons [of "acc @ decimal_text (se_amount e)"] decimal_text_mark [of "se_amount e"]
  show ?case by simp
qed

lemma foldl_amounts_head:
  "\<exists>t. foldl (\<lambda>sum entry. sum @ decimal_text (se_amount entry)) (c0 # acc) es = c0 # t"
  by (induction es arbitrary: acc) simp_all

lemma sum_of_several:
  assumes "2 \<le> length entries"
  shows "ToNumber (sum_amounts entries) = NaN"
proof -
  from assms obtain e es where en: "entries = e # es" and es: "1 \<le> length es"
    by (cases entries) auto
  define s where "s = foldl (\<lambda>sum entry. sum @ decimal_text (se_amount entry))
                        (''0'' @ decimal_text (se_amount e)) es"
  from foldl_amounts_head [of "CHR ''0''" "decimal_text (se_amount e)" es]
  obtain t where hd: "s = CHR ''0'' # t"
    by (auto simp: s_def)
  have "length (filter (\<lambda>c. \<not> is_digit c) (''0'' @ decimal_text (se_amount e))) + length es
          \<le> length (filter (\<lambda>c. \<not> is_digit c) s)"
    unfolding s_def by (rule foldl_amounts_marks)
  moreover have "1 \<le> length (filter (\<lambda>c. \<not> is_digit c) (''0'' @ decimal_text (se_amount e)))"
    using decimal_text_mark [of "se_amount e"] by simp
  ultimately have "2 \<le> length (filter (\<lambda>c. \<not> is_digit c) s)"
    using es by linarith
  then have "to_number s = NaN"
    using hd by (rule to_number_two_marks) (simp add: is_digit_def digit_val_def)
  then show ?thesis
    by (simp add: sum_amounts_def en s_def)
qed

text \<open>So a day with two or more entries is never on track, whatever the amounts and the
  goal, and its \<open>unnecessarySpent\<close> is \<open>null\<close>.\<close>

lemma several_entries_not_on_track:
  assumes "path_user ev ''/analysis/daily/'' = Some (sub p)"
      and "param (queryStringParameters ev) ''date'' = Some d"
      and "2 \<le> length (filter (\<lambda>e. se_user_id e = sub p \<and> se_date e = d) (spending_entries w))"
      and "handleGetDailyAnalysis E ev p w = (Inr r, w')"
  shows "\<exists>data. statusCode r = 200 \<and> resp_body r = success_body data \<and>
           member data ''unnecessarySpent'' = Some JNull \<and>
           member data ''onTrack'' = Some (JBool False)"
proof -
  let ?entries = "filter (\<lambda>e. se_user_id e = sub p \<and> se_date e = d) (spending_entries w)"
  from assms(3) have nan: "ToNumber (sum_amounts ?entries) = NaN"
    by (rule sum_of_several)
  then have track: "\<not> onTrack (sum_amounts ?entries) g" for g
    by (simp add: onTrack_def)
  from assms(1,2,4) show ?thesis
    unfolding handleGetDailyAnalysis_def Let_def await_def executeQuery_def select_entries_on_def
      select_goal_def callGemini_def resolve_def
    by (auto simp: createResponse_def member_mk_obj nan track
        split: if_splits option.splits sum.splits prod.splits)
qed

text \<open>
  C1 (daily-analysis rule: \<open>dailyBudget = (monthlyIncome - monthlySavingsGoal) / 30\<close> and
  \<open>onTrack = (totalSpent \<le> dailyBudget * 0.8)\<close>; with income 3000 and goal 900, on track at
  a total of 55 and not at 60). On the sample deployment the user has an income of 3000.00
  and a goal of 900.00 and spent 30.00 and 25.00 on the day, 55 in total against a threshold
  of 56. The handler answers with \<open>totalSpent\<close> the text \<open>030.0025.00\<close>, with
  \<open>necessarySpent\<close> the text \<open>030.00\<close>, with \<open>unnecessarySpent\<close> \<open>null\<close> and
  with \<open>onTrack\<close> false, and recommends to reduce expenses: the driver hands the amounts of
  \<open>DECIMAL\<close> columns over as texts, \<open>sum + entry.amount\<close> appends them, and the
  result converts to no number. With the day's 55.00 in one entry the text \<open>055.00\<close>
  converts to 55 at the comparison and the day is on track; with 60.00 in one entry it is
  not.
\<close>

theorem daily_total_is_concatenation:
  "fst (handleGetDailyAnalysis demo_env daily_request alice demo_world) =
     Inr (createResponse 200 (success_body (JObj
       [(''date'', JStr ''2025-09-13''),
        (''totalSpent'', JStr ''030.0025.00''),
        (''necessarySpent'', JStr ''030.00''),
        (''unnecessarySpent'', JNull),
        (''onTrack'', JBool False),
        (''analysis'', JStr ''Spend less on coffee.''),
        (''recommendations'', JArr
           [JStr ''Consider reducing unnecessary expenses'',
            JStr ''Track your spending daily to stay on top of your goals'',
            JStr ''Review your budget weekly to make adjustments''])]))) \<and>
   fst (handleGetDailyAnalysis demo_env daily_request alice (one_entry_world 5500)) =
     Inr (createResponse 200 (success_body (JObj
       [(''date'', JStr ''2025-09-13''),
        (''totalSpent'', JStr ''055.00''),
        (''necessarySpent'', JNum 0),
        (''unnecessarySpent'', JNum 55),
        (''onTrack'', JBool True),
        (''analysis'', JStr ''Spend less on coffee.''),
        (''recommendations'', JArr
           [JStr ''Great job staying within budget!'',
            JStr ''Track your spending daily to stay on top of your goals'',
            JStr ''Review your budget weekly to make adjustments''])]))) \<and>
   fst (handleGetDailyAnalysis demo_env daily_request alice (one_entry_world 6000)) =
     Inr (createResponse 200 (success_body (JObj
       [(''date'', JStr ''2025-09-13''),
        (''totalSpent'', JStr ''060.00''),
        (''necessarySpent'', JNum 0),
        (''unnecessarySpent'', JNum 60),
        (''onTrack'', JBool False),
        (''analysis'', JStr ''Spend less on coffee.''),
        (''recommendations'', JArr
           [JStr ''Consider reducing unnecessary expenses'',
            JStr ''Track your spending daily to stay on top of your goals'',
            JStr ''Review your budget weekly to make adjustments''])])))"
  by (simp add: handleGetDailyAnalysis_def select_entries_on_def select_goal_def sum_amounts_def
      onTrack_def dailyBudget_def extractUserIdFromPath_def fixture_defs run_defs num_defs)

subsection \<open>C2: authentication failures at the Router\<close>




subsection \<open>C3: a path user id that is not the token's subject\<close>

lemma startsWith_both:
  "startsWith s p \<Longrightarrow> startsWith s q \<Longrightarrow> length p \<le> length q \<Longrightarrow> startsWith q p"
  unfolding startsWith_def
  by (metis min.absorb1 take_take)

lemma not_open_path:
  "startsWith cp p \<Longrightarrow> \<forall>q \<in> set open_paths. \<not> startsWith q p \<Longrightarrow> cp \<notin> set open_paths"
  by auto

text \<open>
  C3. For every authenticated GET request to a route whose path carries a target user id
  (\<open>/savings/goal/\<close>, \<open>/analysis/daily/\<close>, \<open>/quiz/analysis/\<close>, \<open>/chat/history/\<close>,
  \<open>/spending/entries/\<close>) where that user id differs from the subject of the verified
  token, the answer is the envelope \<open>{success: false, error: "Unauthorized"}\<close> with status
  403, in every state of the store, which is left as it was: the answers in two store states
  are identical.
\<close>

theorem path_mismatch_unauthorized:
  assumes "verifyToken E ev = Inr p" and "httpMethod ev = ''GET''" and "clean_path ev = Inr cp"
      and "startsWith cp ''/savings/goal/'' \<and> param (pathParameters ev) ''userId'' \<noteq> Some (sub p)
         \<or> startsWith cp ''/analysis/daily/'' \<and> path_user ev ''/analysis/daily/'' \<noteq> Some (sub p)
         \<or> startsWith cp ''/quiz/analysis/'' \<and> param (pathParameters ev) ''userId'' \<noteq> Some (sub p)
         \<or> startsWith cp ''/chat/history/'' \<and> path_user ev ''/chat/history/'' \<noteq> Some (sub p)
         \<or> startsWith cp ''/spending/entries/'' \<and> truthy (path_user ev ''/spending/entries/'')
             \<and> path_user ev ''/spending/entries/'' \<noteq> Some (sub p)"
  shows "handler E ev w = (createResponse 403 (failure_body ''Unauthorized''), w) \<and>
         fst (handler E ev w) = fst (handler E ev w2)"
proof -
  have excl: "\<And>a b. startsWith cp a \<Longrightarrow> length a \<le> length b \<Longrightarrow> \<not> startsWith b a \<Longrightarrow> \<not> startsWith cp b"
    using startsWith_both by blast
  have "route E ev w' = (Inr (createResponse 403 (failure_body ''Unauthorized'')), w')" for w'
    using assms(4)
  proof (elim disjE conjE)
    assume a: "startsWith cp ''/savings/goal/''" "param (pathParameters ev) ''userId'' \<noteq> Some (sub p)"
    have "cp \<notin> set open_paths"
      by (rule not_open_path [OF a(1)]) (simp add: open_paths_def startsWith_def)
    moreover have "\<not> startsWith cp ''/spending/entries/''" "\<not> startsWith cp ''/analysis/daily/''"
      "\<not> startsWith cp ''/quiz/analysis/''"
      by (rule excl [OF a(1)]; simp add: startsWith_def)+
    moreover have "cp \<noteq> ''/quiz/submit''" "cp \<noteq> ''/spending/entry''" "cp \<noteq> ''/savings/goal''" "cp \<noteq> ''/chat/message''"
      using a(1) by (auto simp: startsWith_def)
    ultimately show ?thesis
      using assms(1-3) a
      by (simp add: route_def dispatch_def handleGetSavingsGoal_def resolve_def Let_def)
  next
    assume a: "startsWith cp ''/analysis/daily/''" "path_user ev ''/analysis/daily/'' \<noteq> Some (sub p)"
    have "cp \<notin> set open_paths"
      by (rule not_open_path [OF a(1)]) (simp add: open_paths_def startsWith_def)
    moreover have "\<not> startsWith cp ''/spending/entries/''"
      by (rule excl [OF a(1)]; simp add: startsWith_def)+
    moreover have "cp \<noteq> ''/quiz/submit''" "cp \<noteq> ''/spending/entry''" "cp \<noteq> ''/savings/goal''" "cp \<noteq> ''/chat/message''"
      using a(1) by (auto simp: startsWith_def)
    ultimately show ?thesis
      using assms(1-3) a
      by (simp add: route_def dispatch_def handleGetDailyAnalysis_def resolve_def Let_def)
  next
    assume a: "startsWith cp ''/quiz/analysis/''" "param (pathParameters ev) ''userId'' \<noteq> Some (sub p)"
    have "cp \<notin> set open_paths"
      by (rule not_open_path [OF a(1)]) (simp add: open_paths_def startsWith_def)
    moreover have "\<not> startsWith cp ''/spending/entries/''" "\<not> startsWith cp ''/analysis/daily/''"
      by (rule excl [OF a(1)]; simp add: startsWith_def)+
    moreover have "cp \<noteq> ''/quiz/submit''" "cp \<noteq> ''/spending/entry''" "cp \<noteq> ''/savings/goal''" "cp \<noteq> ''/chat/message''"
      using a(1) by (auto simp: startsWith_def)
    ultimately show ?thesis
      using assms(1-3) a
      by (simp add: route_def dispatch_def handleGetQuizAnalysis_def resolve_def Let_def)
  next
    assume a: "startsWith cp ''/chat/history/''" "path_user ev ''/chat/history/'' \<noteq> Some (sub p)"
    have "cp \<notin> set open_paths"
      by (rule not_open_path [OF a(1)]) (simp add: open_paths_def startsWith_def)
    moreover have "\<not> startsWith cp ''/spending/entries/''" "\<not> startsWith cp ''/analysis/daily/''"
      "\<not> startsWith cp ''/quiz/analysis/''"
      by (rule excl [OF a(1)]; simp add: startsWith_def)+
    moreover have "\<not> startsWith cp ''/savings/goal/''" "\<not> startsWith cp ''/spending/entry/''"
      by (rule excl [OF a(1)]; simp add: startsWith_def)+
    moreover have "cp \<noteq> ''/quiz/submit''" "cp \<noteq> ''/spending/entry''" "cp \<noteq> ''/savings/goal''" "cp \<noteq> ''/chat/message''"
      using a(1) by (auto simp: startsWith_def)
    ultimately show ?thesis
      using assms(1-3) a
      by (simp add: route_def dispatch_def handleGetChatHistory_def resolve_def Let_def)
  next
    assume a: "startsWith cp ''/spending/entries/''" "truthy (path_user ev ''/spending/entries/'')"
      "path_user ev ''/spending/entries/'' \<noteq> Some (sub p)"
    have "cp \<notin> set open_paths"
      by (rule not_open_path [OF a(1)]) (simp add: open_paths_def startsWith_def)
    moreover have "cp \<noteq> ''/quiz/submit''" "cp \<noteq> ''/spending/entry''"
      using a(1) by (auto simp: startsWith_def)
    moreover from a(2,3) have "the (path_user ev ''/spending/entries/'') \<noteq> sub p"
      by (cases "path_user ev ''/spending/entries/''") auto
    ultimately show ?thesis
      using assms(1-3) a
      by (simp add: route_def dispatch_def handleGetSpendingEntries_def resolve_def Let_def)
  qed
  with assms(2) show ?thesis
    by (simp add: handler_def)
qed

text \<open>The scenario of the specification: subject \<open>abc\<close> asks for the goal of \<open>xyz\<close>,
  once with no goal row for \<open>xyz\<close> in the store and once with one.\<close>

theorem path_mismatch_unauthorized_witness:
  "verifyToken demo_env (goal_request ''xyz'' ''token-abc'') = Inr alice \<and>
   httpMethod (goal_request ''xyz'' ''token-abc'') = ''GET'' \<and>
   clean_path (goal_request ''xyz'' ''token-abc'') = Inr ''/savings/goal/xyz'' \<and>
   startsWith ''/savings/goal/xyz'' ''/savings/goal/'' \<and>
   param (pathParameters (goal_request ''xyz'' ''token-abc'')) ''userId'' \<noteq> Some (sub alice) \<and>
   handler demo_env (goal_request ''xyz'' ''token-abc'') demo_world
     = (createResponse 403 (failure_body ''Unauthorized''), demo_world) \<and>
   fst (handler demo_env (goal_request ''xyz'' ''token-abc'') demo_world)
     = fst (handler demo_env (goal_request ''xyz'' ''token-abc'')
         (demo_world\<lparr>savings_goals := map (\<lambda>g. g\<lparr>g_user_id := ''xyz''\<rparr>) (savings_goals demo_world)\<rparr>))"
proof -
  let ?ev = "goal_request ''xyz'' ''token-abc''"
  have h1: "verifyToken demo_env ?ev = Inr alice"
    by (simp add: verifyToken_def verifyToken_try_def auth_header_def strip_bearer_def ci_def
        is_space_def js_or_def Let_def fixture_defs)
  have h2: "httpMethod ?ev = ''GET''"
    by (simp add: fixture_defs)
  have h3: "clean_path ?ev = Inr ''/savings/goal/xyz''"
    by (simp add: fixture_defs clean_path_def param_def js_or_def startsWith_def Let_def)
  have h4: "startsWith ''/savings/goal/xyz'' ''/savings/goal/''"
    by (simp add: startsWith_def)
  have h5: "param (pathParameters ?ev) ''userId'' \<noteq> Some (sub alice)"
    by (simp add: fixture_defs param_def)
  from h4 h5 have h: "startsWith ''/savings/goal/xyz'' ''/savings/goal/'' \<and>
        param (pathParameters ?ev) ''userId'' \<noteq> Some (sub alice)
     \<or> startsWith ''/savings/goal/xyz'' ''/analysis/daily/'' \<and> path_user ?ev ''/analysis/daily/'' \<noteq> Some (sub alice)
     \<or> startsWith ''/savings/goal/xyz'' ''/quiz/analysis/'' \<and> param (pathParameters ?ev) ''userId'' \<noteq> Some (sub alice)
     \<or> startsWith ''/savings/goal/xyz'' ''/chat/history/'' \<and> path_user ?ev ''/chat/history/'' \<noteq> Some (sub alice)
     \<or> startsWith ''/savings/goal/xyz'' ''/spending/entries/'' \<and> truthy (path_user ?ev ''/spending/entries/'')
         \<and> path_user ?ev ''/spending/entries/'' \<noteq> Some (sub alice)"
    by blast
  from path_mismatch_unauthorized [OF h1 h2 h3 h] h1 h2 h3 h4 h5 show ?thesis
    by blast
qed

subsection \<open>C4: the two handlers that swallow store errors\<close>

lemma query_steps:
  "executeQuery E (select_user uid) w = (Inr x0, w') \<Longrightarrow>
     db_fault E (db_calls w) = None \<and> db_calls w' = Suc (db_calls w)"
  "executeQuery E (insert_user E uid em nm) w = (Inr x1, w') \<Longrightarrow>
     db_fault E (db_calls w) = None \<and> db_calls w' = Suc (db_calls w)"
  "executeQuery E (insert_quiz E uid ans an) w = (Inr x2, w') \<Longrightarrow>
     db_fault E (db_calls w) = None \<and> db_calls w' = Suc (db_calls w)"
  "executeQuery E (insert_spending E uid d a ds c n) w = (Inr x3, w') \<Longrightarrow>
     db_fault E (db_calls w) = None \<and> db_calls w' = Suc (db_calls w)"
  "executeQuery E (select_entries uid dt) w = (Inr x4, w') \<Longrightarrow>
     db_fault E (db_calls w) = None \<and> db_calls w' = Suc (db_calls w)"
  "executeQuery E (select_entries_on uid dt) w = (Inr x5, w') \<Longrightarrow>
     db_fault E (db_calls w) = None \<and> db_calls w' = Suc (db_calls w)"
  "executeQuery E (select_recent_entries uid) w = (Inr x6, w') \<Longrightarrow>
     db_fault E (db_calls w) = None \<and> db_calls w' = Suc (db_calls w)"
  "executeQuery E (select_entry i uid) w = (Inr x7, w') \<Longrightarrow>
     db_fault E (db_calls w) = None \<and> db_calls w' = Suc (db_calls w)"
  "executeQuery E (update_entry E d a ds c n i uid) w = (Inr x8, w') \<Longrightarrow>
     db_fault E (db_calls w) = None \<and> db_calls w' = Suc (db_calls w)"
  "executeQuery E (delete_entry i uid) w = (Inr x9, w') \<Longrightarrow>
     db_fault E (db_calls w) = None \<and> db_calls w' = Suc (db_calls w)"
  "executeQuery E (select_goal uid) w = (Inr x10, w') \<Longrightarrow>
     db_fault E (db_calls w) = None \<and> db_calls w' = Suc (db_calls w)"
  "executeQuery E (upsert_goal E uid inc sg pl) w = (Inr x11, w') \<Longrightarrow>
     db_fault E (db_calls w) = None \<and> db_calls w' = Suc (db_calls w)"
  "executeQuery E (insert_chat E uid msg b) w = (Inr x12, w') \<Longrightarrow>
     db_fault E (db_calls w) = None \<and> db_calls w' = Suc (db_calls w)"
  "executeQuery E (select_chat_history uid) w = (Inr x13, w') \<Longrightarrow>
     db_fault E (db_calls w) = None \<and> db_calls w' = Suc (db_calls w)"
  "executeQuery E (select_latest_quiz uid) w = (Inr x14, w') \<Longrightarrow>
     db_fault E (db_calls w) = None \<and> db_calls w' = Suc (db_calls w)"
  "executeQuery E (metadata E q) w = (Inr x15, w') \<Longrightarrow>
     db_fault E (db_calls w) = None \<and> db_calls w' = Suc (db_calls w)"
  by (erule executeQuery_step, erule stmt_calls)+

lemma chat_no_fault:
  assumes "handleChatMessage E ev p w = (Inr r, w')"
  shows "\<not> store_faulted E w w'"
  using assms unfolding handleChatMessage_def
  by (auto simp: store_faulted_iff less_Suc_eq throw_def resolve_def
      split: sum.splits elim!: await_InrE
      dest!: query_steps callGemini_calls date_now_calls)

lemma add_no_fault:
  assumes "handleAddSpendingEntry E ev p w = (Inr r, w')"
  shows "\<not> store_faulted E w w'"
  using assms unfolding handleAddSpendingEntry_def
  by (auto simp: store_faulted_iff less_Suc_eq throw_def resolve_def
      split: sum.splits elim!: await_InrE
      dest!: query_steps callGemini_calls date_now_calls)

lemma daily_no_fault:
  assumes "handleGetDailyAnalysis E ev p w = (Inr r, w')"
  shows "\<not> store_faulted E w w'"
  using assms unfolding handleGetDailyAnalysis_def
  by (auto simp: store_faulted_iff less_Suc_eq throw_def resolve_def Let_def
      split: sum.splits if_splits elim!: await_InrE
      dest!: query_steps callGemini_calls date_now_calls)

lemma quiz_analysis_no_fault:
  assumes "handleGetQuizAnalysis E ev p w = (Inr r, w')"
  shows "\<not> store_faulted E w w'"
  using assms unfolding handleGetQuizAnalysis_def
  by (auto simp: store_faulted_iff less_Suc_eq throw_def resolve_def Let_def
      split: sum.splits if_splits option.splits elim!: await_InrE
      dest!: query_steps callGemini_calls date_now_calls)

lemma get_goal_no_fault:
  assumes "handleGetSavingsGoal E ev p w = (Inr r, w')"
  shows "\<not> store_faulted E w w'"
  using assms unfolding handleGetSavingsGoal_def
  by (auto simp: store_faulted_iff less_Suc_eq throw_def resolve_def Let_def
      split: sum.splits if_splits option.splits elim!: await_InrE
      dest!: query_steps callGemini_calls date_now_calls)

lemma update_no_fault:
  assumes "handleUpdateSpendingEntry E ev p w = (Inr r, w')"
  shows "\<not> store_faulted E w w'"
  using assms unfolding handleUpdateSpendingEntry_def
  by (auto simp: store_faulted_iff less_Suc_eq throw_def resolve_def Let_def
      split: sum.splits if_splits option.splits elim!: await_InrE
      dest!: query_steps callGemini_calls date_now_calls)

lemma delete_no_fault:
  assumes "handleDeleteSpendingEntry E ev p w = (Inr r, w')"
  shows "\<not> store_faulted E w w'"
  using assms unfolding handleDeleteSpendingEntry_def
  by (auto simp: store_faulted_iff less_Suc_eq throw_def resolve_def Let_def
      split: sum.splits if_splits option.splits elim!: await_InrE
      dest!: query_steps callGemini_calls date_now_calls)

lemma history_no_fault:
  assumes "handleGetChatHistory E ev p w = (Inr r, w')"
  shows "\<not> store_faulted E w w'"
  using assms unfolding handleGetChatHistory_def
  by (auto simp: store_faulted_iff less_Suc_eq throw_def resolve_def Let_def
      split: sum.splits if_splits option.splits elim!: await_InrE
      dest!: query_steps callGemini_calls date_now_calls)


lemma quiz_submit_fault:
  assumes "handleQuizSubmit E ev p w = (res, w')" and "store_faulted E w w'"
  shows "\<exists>m. res = Inr (createResponse 500 (failure_body m))"
proof (cases "handleQuizSubmit_try E ev p w")
  case (Pair a w1)
  show ?thesis
  proof (cases a)
    case (Inl e)
    with Pair assms(1) show ?thesis
      by (auto simp: handleQuizSubmit_def try_catch_def resolve_def)
  next
    case (Inr r)
    with Pair assms(1) have w1: "w1 = w'"
      by (auto simp: handleQuizSubmit_def try_catch_def)
    from Pair Inr have "\<not> store_faulted E w w1"
      unfolding handleQuizSubmit_try_def
      by (auto simp: store_faulted_iff less_Suc_eq throw_def resolve_def
          split: sum.splits if_splits elim!: await_InrE
          dest!: query_steps callGemini_calls date_now_calls)
    with assms(2) w1 show ?thesis by simp
  qed
qed

lemma connect_step:
  "executeQuery E (\<lambda>w. Inr ((), w)) w = (Inr x, w') \<Longrightarrow>
     db_fault E (db_calls w) = None \<and> db_calls w' = Suc (db_calls w)"
  by (erule executeQuery_step) simp

lemma probe_fault:
  assumes "probe E ev cp w = (res, w')" and "store_faulted E w w'"
  shows "\<exists>r. res = Inr r \<and> statusCode r = 500"
proof -
  have gem: "\<And>res w'. callGemini E w = (res, w') \<Longrightarrow> \<not> store_faulted E w w'"
    by (auto dest!: callGemini_calls simp: store_faulted_same)
  consider "cp = ''/health''" | "cp \<noteq> ''/health''" "cp = ''/test-db''"
    | "cp \<noteq> ''/health''" "cp \<noteq> ''/test-db''" "cp = ''/test-gemini''"
    | "cp \<noteq> ''/health''" "cp \<noteq> ''/test-db''" "cp \<noteq> ''/test-gemini''" "cp = ''/debug''"
    | "cp \<noteq> ''/health''" "cp \<noteq> ''/test-db''" "cp \<noteq> ''/test-gemini''" "cp \<noteq> ''/debug''"
    by blast
  then show ?thesis
  proof cases
    case 1
    with assms show ?thesis
      by (auto simp: probe_def resolve_def store_faulted_same)
  next
    case 2
    with assms(1) have "try_catch
             (await (executeQuery E (\<lambda>w. Inr ((), w))) (\<lambda>_.
              resolve (createResponse 200 (JObj [(''status'', JStr ''database connected'')]))))
             (\<lambda>err. resolve (createResponse 500 (JObj [(''error'', JStr (message err))]))) w = (res, w')"
      by (simp add: probe_def)
    then show ?thesis
    proof (cases rule: try_catch_cases)
      case (ok x)
      then have "\<not> store_faulted E w w'"
        by (auto simp: store_faulted_iff less_Suc_eq resolve_def elim!: await_InrE dest!: connect_step)
      with assms(2) show ?thesis by simp
    next
      case (caught e w1)
      then show ?thesis by (auto simp: resolve_def createResponse_def)
    qed
  next
    case 3
    with assms(1) have "try_catch
             (await (callGemini E) (\<lambda>response.
              resolve (createResponse 200
                (JObj [(''status'', JStr ''gemini working''), (''response'', JStr response)]))))
             (\<lambda>err. resolve (createResponse 500 (JObj [(''error'', JStr (message err))]))) w = (res, w')"
      by (simp add: probe_def)
    then show ?thesis
    proof (cases rule: try_catch_cases)
      case (ok x)
      then have "\<not> store_faulted E w w'"
        by (auto simp: store_faulted_same resolve_def elim!: await_InrE dest!: callGemini_calls)
      with assms(2) show ?thesis by simp
    next
      case (caught e w1)
      then show ?thesis by (auto simp: resolve_def createResponse_def)
    qed
  next
    case 4
    with assms show ?thesis
      by (auto simp: probe_def resolve_def store_faulted_same)
  next
    case 5
    with assms(1) have "try_catch
             (await (executeQuery E (metadata E ''SHOW TABLES'')) (\<lambda>tables.
              await (executeQuery E (metadata E ''DESCRIBE quiz_responses'')) (\<lambda>quizTableStructure.
              await (executeQuery E (metadata E ''DESCRIBE users'')) (\<lambda>usersTableStructure.
              await (executeQuery E (select_user ''41d30dea-2041-707f-953d-b18011ab9d80'')) (\<lambda>userExists.
              resolve (createResponse 200 (JObj
                [(''status'', JStr ''schema check''), (''tables'', tables),
                 (''quizTableStructure'', quizTableStructure),
                 (''usersTableStructure'', usersTableStructure),
                 (''userExists'', JArr (map user_json userExists))])))))))
             (\<lambda>err. resolve (createResponse 500 (JObj [(''error'', JStr (message err))]))) w = (res, w')"
      by (simp add: probe_def)
    then show ?thesis
    proof (cases rule: try_catch_cases)
      case (ok x)
      then have "\<not> store_faulted E w w'"
        by (auto simp: store_faulted_iff less_Suc_eq resolve_def elim!: await_InrE dest!: query_steps)
      with assms(2) show ?thesis by simp
    next
      case (caught e w1)
      then show ?thesis by (auto simp: resolve_def createResponse_def)
    qed
  qed
qed

lemma dispatch_fault:
  assumes "dispatch E ev cp p w = (Inr r, w')" and "store_faulted E w w'"
  shows "statusCode r = 500
       \<or> httpMethod ev = ''GET'' \<and> startsWith cp ''/spending/entries/''
       \<or> httpMethod ev = ''POST'' \<and> cp = ''/savings/goal''"
  using assms unfolding dispatch_def Let_def
  by (auto simp: resolve_def store_faulted_same createResponse_def
      split: if_splits
      dest: quiz_submit_fault chat_no_fault add_no_fault daily_no_fault quiz_analysis_no_fault
        get_goal_no_fault update_no_fault delete_no_fault history_no_fault)

lemma handler_fault:
  assumes "handler E ev w = (r, w')" and "store_faulted E w w'"
  shows "statusCode r = 500
       \<or> (\<exists>cp. clean_path ev = Inr cp \<and>
             (httpMethod ev = ''GET'' \<and> startsWith cp ''/spending/entries/''
              \<or> httpMethod ev = ''POST'' \<and> cp = ''/savings/goal''))"
proof (cases "httpMethod ev = ''OPTIONS''")
  case True
  with assms show ?thesis by (auto simp: handler_def store_faulted_same)
next
  case False
  obtain res w1 where route: "route E ev w = (res, w1)" by (cases "route E ev w")
  show ?thesis
  proof (cases res)
    case (Inl e)
    with route False assms(1) show ?thesis
      by (auto simp: handler_def createResponse_def)
  next
    case (Inr r')
    with route False assms(1) have eq: "r' = r" "w1 = w'"
      by (auto simp: handler_def)
    from route Inr eq have run: "route E ev w = (Inr r, w')" by simp
    then obtain cp where cp: "clean_path ev = Inr cp"
      by (auto simp: route_def throw_def split: sum.splits)
    show ?thesis
    proof (cases "cp \<in> set open_paths")
      case True
      with run cp have "probe E ev cp w = (Inr r, w')" by (simp add: route_def)
      from probe_fault [OF this assms(2)] show ?thesis by simp
    next
      case False
      with run cp obtain p where "dispatch E ev cp p w = (Inr r, w')"
        by (auto simp: route_def throw_def split: sum.splits)
      from dispatch_fault [OF this assms(2)] cp show ?thesis by blast
    qed
  qed
qed

lemma list_entries_soft_fail:
  assumes "handleGetSpendingEntries E ev up w = (res, w')" and "store_faulted E w w'"
  shows "res = Inr (createResponse 200 (success_body (JArr [])))"
  using assms unfolding handleGetSpendingEntries_def Let_def
  by (auto simp: resolve_def store_faulted_same store_faulted_iff less_Suc_eq
      split: if_splits elim!: try_catch_cases await_InrE dest!: query_steps)

lemma set_goal_soft_fail:
  assumes "destructure (body ev) = Inr f" and "callGemini E w = (Inr plan, w1)"
      and "executeQuery E (upsert_goal E (sub p) (f ''monthlyIncome'') (f ''monthlySavingsGoal'') plan) w1
             = (Inl e, w2)"
  shows "\<exists>r w3 data. handleSetSavingsGoal E ev p w = (Inr r, w3) \<and> statusCode r = 200 \<and>
           resp_body r = success_body data \<and>
           member data ''monthlyIncome'' = f ''monthlyIncome'' \<and>
           member data ''monthlySavingsGoal'' = f ''monthlySavingsGoal'' \<and>
           member data ''savingsPlan'' = Some (JStr plan) \<and>
           savings_goals w3 = savings_goals w"
proof -
  from assms(3) have w2: "w2 = w1\<lparr>db_calls := Suc (db_calls w1)\<rparr>"
    by (rule executeQuery_Inl_tables)
  from assms(2) have w1: "savings_goals w1 = savings_goals w"
    by (auto dest: callGemini_world)
  show ?thesis
    using assms w1 w2
    by (cases "f ''monthlyIncome''"; cases "f ''monthlySavingsGoal''")
       (simp_all add: handleSetSavingsGoal_def await_def try_catch_def resolve_def date_now_def
          read_clock_def createResponse_def mk_obj_def success_body_def)
qed

lemma set_goal_generation_error:
  assumes "destructure (body ev) = Inr f" and "callGemini E w = (Inl e, w1)"
  shows "handleSetSavingsGoal E ev p w = (Inl e, w1)"
  using assms by (simp add: handleSetSavingsGoal_def await_def)

text \<open>
  C4. Store errors are soft-failed in exactly two handlers. Whenever a store call of a
  GetSpendingEntries request is at fault, the answer is a success envelope whose data is the
  empty list. Whenever, in a SetSavingsGoal request, text generation succeeds and the upsert
  raises (a fault of the store or a rejected statement), the answer is a success envelope
  with status 200 that carries the submitted \<open>monthlyIncome\<close> and
  \<open>monthlySavingsGoal\<close> and the generated plan, and the goal table is as before; a
  failure of text generation is thrown to the caller instead. On every other route a store
  call at fault ends in status 500.
\<close>

theorem store_errors_soft_fail:
  "(handleGetSpendingEntries E ev up w = (res, w') \<and> store_faulted E w w' \<longrightarrow>
      res = Inr (createResponse 200 (success_body (JArr [])))) \<and>
   (destructure (body ev) = Inr f \<and> callGemini E w = (Inr plan, w1) \<and>
    executeQuery E (upsert_goal E (sub p) (f ''monthlyIncome'') (f ''monthlySavingsGoal'') plan) w1
      = (Inl e, w2) \<longrightarrow>
      (\<exists>r w3 data. handleSetSavingsGoal E ev p w = (Inr r, w3) \<and> statusCode r = 200 \<and>
         resp_body r = success_body data \<and>
         member data ''monthlyIncome'' = f ''monthlyIncome'' \<and>
         member data ''monthlySavingsGoal'' = f ''monthlySavingsGoal'' \<and>
         member data ''savingsPlan'' = Some (JStr plan) \<and>
         savings_goals w3 = savings_goals w)) \<and>
   (destructure (body ev) = Inr f \<and> callGemini E w = (Inl e, w1) \<longrightarrow>
      handleSetSavingsGoal E ev p w = (Inl e, w1)) \<and>
   (handler E ev w = (r, w') \<and> store_faulted E w w' \<longrightarrow>
      statusCode r = 500
      \<or> (\<exists>cp. clean_path ev = Inr cp \<and>
            (httpMethod ev = ''GET'' \<and> startsWith cp ''/spending/entries/''
             \<or> httpMethod ev = ''POST'' \<and> cp = ''/savings/goal'')))"
  using list_entries_soft_fail [of E ev up w res w']
    set_goal_soft_fail [of ev f E w plan w1 p e w2]
    set_goal_generation_error [of ev f E w e w1 p]
    handler_fault [of E ev w r w']
  by blast


text \<open>With the store unreachable, listing entries answers the empty list and setting a
  goal answers the unsaved goal; with the provider unreachable, setting a goal throws; and
  reading a goal from the unreachable store ends in status 500.\<close>

theorem store_errors_soft_fail_witness:
  "(handleGetSpendingEntries store_down_env list_request (Some alice) demo_world
      = (Inr (createResponse 200 (success_body (JArr []))), demo_world\<lparr>db_calls := 1\<rparr>) \<and>
    store_faulted store_down_env demo_world (demo_world\<lparr>db_calls := 1\<rparr>)) \<and>
   (callGemini store_down_env demo_world
      = (Inr ''Spend less on coffee.'', demo_world\<lparr>gemini_calls := 1\<rparr>) \<and>
    (\<exists>r w3 data. handleSetSavingsGoal store_down_env set_goal_request alice demo_world = (Inr r, w3) \<and>
       statusCode r = 200 \<and> resp_body r = success_body data \<and>
       member data ''monthlyIncome'' = Some (JNum 3000) \<and>
       member data ''monthlySavingsGoal'' = Some (JNum 900) \<and>
       member data ''savingsPlan'' = Some (JStr ''Spend less on coffee.'') \<and>
       savings_goals w3 = savings_goals demo_world)) \<and>
   (callGemini provider_down_env demo_world
      = (Inl (Error ''Failed to get AI response''), demo_world\<lparr>gemini_calls := 1\<rparr>) \<and>
    handleSetSavingsGoal provider_down_env set_goal_request alice demo_world
      = (Inl (Error ''Failed to get AI response''), demo_world\<lparr>gemini_calls := 1\<rparr>)) \<and>
   (store_faulted store_down_env demo_world
      (snd (handler store_down_env (goal_request ''abc'' ''token-abc'') demo_world)) \<and>
    statusCode (fst (handler store_down_env (goal_request ''abc'' ''token-abc'') demo_world)) = 500)"
proof -
  let ?f = "map_of [(''monthlyIncome'', JNum 3000), (''monthlySavingsGoal'', JNum 900)]"
  let ?plan = "''Spend less on coffee.''"
  let ?w1 = "demo_world\<lparr>gemini_calls := 1\<rparr>"
  have a1: "handleGetSpendingEntries store_down_env list_request (Some alice) demo_world
      = (Inr (createResponse 200 (success_body (JArr []))), demo_world\<lparr>db_calls := 1\<rparr>)"
    by (simp add: handleGetSpendingEntries_def fixture_defs run_defs extractUserIdFromPath_def)
  have a2: "store_faulted store_down_env demo_world (demo_world\<lparr>db_calls := 1\<rparr>)"
    by (simp add: store_faulted_def fixture_defs)
  have b1: "destructure (body set_goal_request) = Inr ?f"
    by (simp add: fixture_defs destructure_def)
  have b2: "callGemini store_down_env demo_world = (Inr ?plan, ?w1)"
    by (simp add: fixture_defs run_defs)
  have b3: "executeQuery store_down_env
              (upsert_goal store_down_env (sub alice) (?f ''monthlyIncome'') (?f ''monthlySavingsGoal'') ?plan) ?w1
            = (Inl (Error ''connect ECONNREFUSED''), ?w1\<lparr>db_calls := 1\<rparr>)"
    by (simp add: fixture_defs executeQuery_def)
  have c2: "callGemini provider_down_env demo_world = (Inl (Error ''Failed to get AI response''), ?w1)"
    by (simp add: fixture_defs run_defs)
  have d0: "handler store_down_env (goal_request ''abc'' ''token-abc'') demo_world
      = (createResponse 500 (failure_body ''connect ECONNREFUSED''), demo_world\<lparr>db_calls := 1\<rparr>)"
    by (simp add: handler_def route_def dispatch_def handleGetSavingsGoal_def verifyToken_def
        verifyToken_try_def auth_header_def strip_bearer_def ci_def is_space_def clean_path_def
        open_paths_def startsWith_def fixture_defs run_defs)
  have d2: "store_faulted store_down_env demo_world
      (snd (handler store_down_env (goal_request ''abc'' ''token-abc'') demo_world))"
    by (simp add: d0) (simp add: store_faulted_def fixture_defs)
  have d1: "handler store_down_env (goal_request ''abc'' ''token-abc'') demo_world
      = (fst (handler store_down_env (goal_request ''abc'' ''token-abc'') demo_world),
         snd (handler store_down_env (goal_request ''abc'' ''token-abc'') demo_world))"
    by simp
  have d3: "clean_path (goal_request ''abc'' ''token-abc'') = Inr ''/savings/goal/abc''"
    by (simp add: fixture_defs clean_path_def param_def js_or_def startsWith_def Let_def)
  have d4: "httpMethod (goal_request ''abc'' ''token-abc'') = ''GET''"
    by (simp add: fixture_defs)
  have d5: "\<not> startsWith ''/savings/goal/abc'' ''/spending/entries/''"
    by (simp add: startsWith_def)
  have B: "\<exists>r w3 data. handleSetSavingsGoal store_down_env set_goal_request alice demo_world = (Inr r, w3) \<and>
       statusCode r = 200 \<and> resp_body r = success_body data \<and>
       member data ''monthlyIncome'' = Some (JNum 3000) \<and>
       member data ''monthlySavingsGoal'' = Some (JNum 900) \<and>
       member data ''savingsPlan'' = Some (JStr ''Spend less on coffee.'') \<and>
       savings_goals w3 = savings_goals demo_world"
    using store_errors_soft_fail [where E = store_down_env and ev = set_goal_request and w = demo_world
        and f = ?f and plan = ?plan and ?w1.0 = ?w1 and p = alice
        and e = "Error ''connect ECONNREFUSED''" and ?w2.0 = "?w1\<lparr>db_calls := 1\<rparr>",
        THEN conjunct2, THEN conjunct1, rule_format, OF conjI [OF b1 conjI [OF b2 b3]]]
    by simp
  have C: "handleSetSavingsGoal provider_down_env set_goal_request alice demo_world
      = (Inl (Error ''Failed to get AI response''), ?w1)"
    by (rule store_errors_soft_fail [where f = ?f,
        THEN conjunct2, THEN conjunct2, THEN conjunct1, rule_format, OF conjI [OF b1 c2]])
  have "statusCode (fst (handler store_down_env (goal_request ''abc'' ''token-abc'') demo_world)) = 500
      \<or> (\<exists>cp. clean_path (goal_request ''abc'' ''token-abc'') = Inr cp \<and>
            (httpMethod (goal_request ''abc'' ''token-abc'') = ''GET'' \<and> startsWith cp ''/spending/entries/''
             \<or> httpMethod (goal_request ''abc'' ''token-abc'') = ''POST'' \<and> cp = ''/savings/goal''))"
    by (rule store_errors_soft_fail [THEN conjunct2, THEN conjunct2, THEN conjunct2, rule_format,
        OF conjI [OF d1 d2]])
  then have D: "statusCode (fst (handler store_down_env (goal_request ''abc'' ''token-abc'') demo_world)) = 500"
    by (simp add: d3 d4 d5)
  have "(Inr (createResponse 200 (success_body (JArr []))) :: error + response)
          = Inr (createResponse 200 (success_body (JArr [])))"
    by (rule store_errors_soft_fail [THEN conjunct1, rule_format, OF conjI [OF a1 a2]])
  from a1 a2 b2 B c2 C d2 D show ?thesis by blast
qed

subsection \<open>C5: the errors of the text-generation client\<close>

text \<open>
  C5 (the three failures of the Text-Generation Client: not configured, empty response,
  request failed). The client raises a failure of its own when no credential is configured,
  and its \<open>try\<close> block raises \<open>Empty response from Gemini\<close> for an answer without
  text. That error is thrown inside the \<open>try\<close> block, however, so the \<open>catch\<close>
  replaces it: for an empty answer the caller receives the same
  \<open>Failed to get AI response\<close> as for a request that failed, and cannot tell the two
  apart.
\<close>

theorem empty_response_masked:
  "callGemini_try (Responded None) = Inl (Error ''Empty response from Gemini'') \<and>
   fst (callGemini empty_reply_env demo_world) = Inl (Error ''Failed to get AI response'') \<and>
   fst (callGemini provider_down_env demo_world) = Inl (Error ''Failed to get AI response'') \<and>
   fst (callGemini (demo_env\<lparr>GEMINI_API_KEY := None\<rparr>) demo_world)
     = Inl (Error ''GEMINI_API_KEY is not configured'')"
  by (simp add: callGemini_def callGemini_try_def fixture_defs Let_def)

subsection \<open>C6: entries of another user\<close>

lemma others_after_update:
  "filter (\<lambda>e. se_user_id e \<noteq> u)
     (map (\<lambda>e. if entry_matches i u e
               then e\<lparr>se_date := d, se_amount := a, se_description := ds, se_category := c,
                      se_is_necessary := n\<rparr>
               else e) xs)
   = filter (\<lambda>e. se_user_id e \<noteq> u) xs"
  by (induction xs) (auto simp: entry_matches_def)

lemma others_after_delete:
  "filter (\<lambda>e. se_user_id e \<noteq> u) (filter (\<lambda>e. \<not> entry_matches i u e) xs)
   = filter (\<lambda>e. se_user_id e \<noteq> u) xs"
  by (induction xs) (auto simp: entry_matches_def)

lemma select_entry_frame:
  "select_entry i u w1 = Inr (x, w2) \<Longrightarrow> spending_entries w2 = spending_entries w1"
  by (auto simp: select_entry_def split: option.splits)

lemma update_entry_others:
  "update_entry E d a ds c n i u w1 = Inr (x, w2) \<Longrightarrow>
     filter (\<lambda>e. se_user_id e \<noteq> u) (spending_entries w2)
       = filter (\<lambda>e. se_user_id e \<noteq> u) (spending_entries w1)"
  by (auto simp: update_entry_def others_after_update split: sum.splits option.splits)

lemma delete_entry_others:
  "delete_entry i u w1 = Inr (x, w2) \<Longrightarrow>
     filter (\<lambda>e. se_user_id e \<noteq> u) (spending_entries w2)
       = filter (\<lambda>e. se_user_id e \<noteq> u) (spending_entries w1)"
  using others_after_delete [where u = u and xs = "spending_entries w1"]
  by (auto simp: delete_entry_def split: option.splits)

lemma select_entry_query:
  "executeQuery E (select_entry i u) w = (res, w') \<Longrightarrow> spending_entries w' = spending_entries w"
  by (erule executeQuery_tables) (rule select_entry_frame)

lemma update_entry_query:
  "executeQuery E (update_entry E d a ds c n i u) w = (res, w') \<Longrightarrow>
     filter (\<lambda>e. se_user_id e \<noteq> u) (spending_entries w')
       = filter (\<lambda>e. se_user_id e \<noteq> u) (spending_entries w)"
  by (erule executeQuery_frame [where g = "filter (\<lambda>e. se_user_id e \<noteq> u)"])
     (rule update_entry_others)

lemma delete_entry_query:
  "executeQuery E (delete_entry i u) w = (res, w') \<Longrightarrow>
     filter (\<lambda>e. se_user_id e \<noteq> u) (spending_entries w')
       = filter (\<lambda>e. se_user_id e \<noteq> u) (spending_entries w)"
  by (erule executeQuery_frame [where g = "filter (\<lambda>e. se_user_id e \<noteq> u)"])
     (rule delete_entry_others)

lemma update_others:
  assumes "handleUpdateSpendingEntry E ev p w = (res, w')"
  shows "filter (\<lambda>e. se_user_id e \<noteq> sub p) (spending_entries w')
           = filter (\<lambda>e. se_user_id e \<noteq> sub p) (spending_entries w)"
  using assms unfolding handleUpdateSpendingEntry_def Let_def
  by (auto simp: throw_def resolve_def split: sum.splits option.splits
      elim!: await_cases dest!: select_entry_query update_entry_query)

lemma delete_others:
  assumes "handleDeleteSpendingEntry E ev p w = (res, w')"
  shows "filter (\<lambda>e. se_user_id e \<noteq> sub p) (spending_entries w')
           = filter (\<lambda>e. se_user_id e \<noteq> sub p) (spending_entries w)"
  using assms unfolding handleDeleteSpendingEntry_def Let_def
  by (auto simp: throw_def resolve_def split: sum.splits option.splits
      elim!: await_cases dest!: select_entry_query delete_entry_query)

lemma no_own_match:
  assumes "a \<in> set xs" "se_user_id a \<noteq> u" "parse_key i = Some (se_id a)"
      and "distinct (map se_id xs)"
  shows "filter (entry_matches i u) xs = []"
proof -
  have "inj_on se_id (set xs)" using assms(4) by (simp add: distinct_map)
  with assms(1) have "\<And>e. e \<in> set xs \<Longrightarrow> se_id e = se_id a \<Longrightarrow> e = a"
    by (auto dest: inj_onD)
  with assms(2,3) show ?thesis
    by (auto simp: filter_empty_conv entry_matches_def)
qed

lemma select_foreign:
  assumes "a \<in> set (spending_entries w)" "se_user_id a \<noteq> sub p" "parse_key i = Some (se_id a)"
      and "distinct (map se_id (spending_entries w))"
  shows "executeQuery E (select_entry (Some i) (sub p)) w =
           (case db_fault E (db_calls w) of
              Some m \<Rightarrow> (Inl (Error m), w\<lparr>db_calls := Suc (db_calls w)\<rparr>)
            | None \<Rightarrow> (Inr [], w\<lparr>db_calls := Suc (db_calls w)\<rparr>))"
  using no_own_match [OF assms]
  by (simp add: executeQuery_def select_entry_def split: option.splits)


lemma update_foreign:
  assumes "a \<in> set (spending_entries w)" "se_user_id a \<noteq> sub p"
      and "param (pathParameters ev) ''id'' = Some i" "parse_key i = Some (se_id a)"
      and "distinct (map se_id (spending_entries w))"
  shows "handleUpdateSpendingEntry E ev p w =
           (case destructure (body ev) of
              Inl e \<Rightarrow> (Inl e, w)
            | Inr f \<Rightarrow>
                (case db_fault E (db_calls w) of
                   Some m \<Rightarrow> (Inl (Error m), w\<lparr>db_calls := Suc (db_calls w)\<rparr>)
                 | None \<Rightarrow> (Inr (createResponse 404 (failure_body ''Entry not found'')),
                            w\<lparr>db_calls := Suc (db_calls w)\<rparr>)))"
  using assms(3) select_foreign [OF assms(1,2,4,5), of E]
  by (simp add: handleUpdateSpendingEntry_def Let_def await_def first_row_def resolve_def
      throw_def split: sum.splits option.splits)

lemma delete_foreign:
  assumes "a \<in> set (spending_entries w)" "se_user_id a \<noteq> sub p"
      and "param (pathParameters ev) ''id'' = Some i" "parse_key i = Some (se_id a)"
      and "distinct (map se_id (spending_entries w))"
  shows "handleDeleteSpendingEntry E ev p w =
           (case db_fault E (db_calls w) of
              Some m \<Rightarrow> (Inl (Error m), w\<lparr>db_calls := Suc (db_calls w)\<rparr>)
            | None \<Rightarrow> (Inr (createResponse 404 (failure_body ''Entry not found'')),
                       w\<lparr>db_calls := Suc (db_calls w)\<rparr>))"
  using assms(3) select_foreign [OF assms(1,2,4,5), of E]
  by (simp add: handleDeleteSpendingEntry_def Let_def await_def first_row_def resolve_def
      split: sum.splits option.splits)

text \<open>
  C6. Let \<open>a\<close> be a stored spending entry of user A, and let a different user B (the
  subject of the verified token) send UpdateSpendingEntry or DeleteSpendingEntry with the id
  of \<open>a\<close>; entry ids are unique (primary key). When the request body parses (update) and
  the store answers the ownership query, the answer is the 404 error
  \<open>Entry not found\<close>. In every case the table of entries is unchanged, and an answer, if
  there is one, is that constant 404 envelope, which carries no field of \<open>a\<close>. Moreover,
  for every request whatsoever, an update or delete under subject \<open>s\<close> leaves the rows of
  all other users exactly as they were.
\<close>

theorem foreign_entry_untouched:
  "(a \<in> set (spending_entries w) \<and> se_user_id a \<noteq> sub p \<and>
    param (pathParameters ev) ''id'' = Some i \<and> parse_key i = Some (se_id a) \<and>
    distinct (map se_id (spending_entries w)) \<longrightarrow>
      (destructure (body ev) = Inr f \<and> db_fault E (db_calls w) = None \<longrightarrow>
         handleUpdateSpendingEntry E ev p w =
           (Inr (createResponse 404 (failure_body ''Entry not found'')),
            w\<lparr>db_calls := Suc (db_calls w)\<rparr>)) \<and>
      (db_fault E (db_calls w) = None \<longrightarrow>
         handleDeleteSpendingEntry E ev p w =
           (Inr (createResponse 404 (failure_body ''Entry not found'')),
            w\<lparr>db_calls := Suc (db_calls w)\<rparr>)) \<and>
      spending_entries (snd (handleUpdateSpendingEntry E ev p w)) = spending_entries w \<and>
      spending_entries (snd (handleDeleteSpendingEntry E ev p w)) = spending_entries w \<and>
      (fst (handleUpdateSpendingEntry E ev p w) = Inr r \<longrightarrow>
         r = createResponse 404 (failure_body ''Entry not found'')) \<and>
      (fst (handleDeleteSpendingEntry E ev p w) = Inr r \<longrightarrow>
         r = createResponse 404 (failure_body ''Entry not found''))) \<and>
   filter (\<lambda>e. se_user_id e \<noteq> sub p) (spending_entries (snd (handleUpdateSpendingEntry E ev p w)))
     = filter (\<lambda>e. se_user_id e \<noteq> sub p) (spending_entries w) \<and>
   filter (\<lambda>e. se_user_id e \<noteq> sub p) (spending_entries (snd (handleDeleteSpendingEntry E ev p w)))
     = filter (\<lambda>e. se_user_id e \<noteq> sub p) (spending_entries w)"
proof (intro conjI impI)
  show "filter (\<lambda>e. se_user_id e \<noteq> sub p) (spending_entries (snd (handleUpdateSpendingEntry E ev p w)))
     = filter (\<lambda>e. se_user_id e \<noteq> sub p) (spending_entries w)"
    by (rule update_others [of E ev p w "fst (handleUpdateSpendingEntry E ev p w)"]) simp
  show "filter (\<lambda>e. se_user_id e \<noteq> sub p) (spending_entries (snd (handleDeleteSpendingEntry E ev p w)))
     = filter (\<lambda>e. se_user_id e \<noteq> sub p) (spending_entries w)"
    by (rule delete_others [of E ev p w "fst (handleDeleteSpendingEntry E ev p w)"]) simp
next
  assume h: "a \<in> set (spending_entries w) \<and> se_user_id a \<noteq> sub p \<and>
    param (pathParameters ev) ''id'' = Some i \<and> parse_key i = Some (se_id a) \<and>
    distinct (map se_id (spending_entries w))"
  then have U: "handleUpdateSpendingEntry E ev p w =
           (case destructure (body ev) of
              Inl e \<Rightarrow> (Inl e, w)
            | Inr f \<Rightarrow>
                (case db_fault E (db_calls w) of
                   Some m \<Rightarrow> (Inl (Error m), w\<lparr>db_calls := Suc (db_calls w)\<rparr>)
                 | None \<Rightarrow> (Inr (createResponse 404 (failure_body ''Entry not found'')),
                            w\<lparr>db_calls := Suc (db_calls w)\<rparr>)))"
    by (intro update_foreign) blast+
  from h have D: "handleDeleteSpendingEntry E ev p w =
           (case db_fault E (db_calls w) of
              Some m \<Rightarrow> (Inl (Error m), w\<lparr>db_calls := Suc (db_calls w)\<rparr>)
            | None \<Rightarrow> (Inr (createResponse 404 (failure_body ''Entry not found'')),
                       w\<lparr>db_calls := Suc (db_calls w)\<rparr>))"
    by (intro delete_foreign) blast+
  show "spending_entries (snd (handleUpdateSpendingEntry E ev p w)) = spending_entries w"
    by (simp add: U split: sum.splits option.splits)
  show "spending_entries (snd (handleDeleteSpendingEntry E ev p w)) = spending_entries w"
    by (simp add: D split: sum.splits option.splits)
  { assume "fst (handleUpdateSpendingEntry E ev p w) = Inr r"
    then show "r = createResponse 404 (failure_body ''Entry not found'')"
      by (auto simp: U split: sum.splits option.splits) }
  { assume "fst (handleDeleteSpendingEntry E ev p w) = Inr r"
    then show "r = createResponse 404 (failure_body ''Entry not found'')"
      by (auto simp: D split: sum.splits option.splits) }
  { assume "destructure (body ev) = Inr f \<and> db_fault E (db_calls w) = None"
    then show "handleUpdateSpendingEntry E ev p w =
           (Inr (createResponse 404 (failure_body ''Entry not found'')),
            w\<lparr>db_calls := Suc (db_calls w)\<rparr>)"
      by (simp add: U) }
  { assume "db_fault E (db_calls w) = None"
    then show "handleDeleteSpendingEntry E ev p w =
           (Inr (createResponse 404 (failure_body ''Entry not found'')),
            w\<lparr>db_calls := Suc (db_calls w)\<rparr>)"
      by (simp add: D) }
qed

text \<open>The second user updates and deletes entry 1, which belongs to the first.\<close>

theorem foreign_entry_untouched_witness:
  "spent 1 ''abc'' ''2025-09-13'' 3000 True \<in> set (spending_entries demo_world) \<and>
   se_user_id (spent 1 ''abc'' ''2025-09-13'' 3000 True) \<noteq> sub bob \<and>
   param (pathParameters (update_request ''1'' ''token-xyz'')) ''id'' = Some ''1'' \<and>
   parse_key ''1'' = Some (se_id (spent 1 ''abc'' ''2025-09-13'' 3000 True)) \<and>
   distinct (map se_id (spending_entries demo_world)) \<and>
   destructure (body (update_request ''1'' ''token-xyz'')) = Inr (member coffee) \<and>
   db_fault demo_env (db_calls demo_world) = None \<and>
   handleUpdateSpendingEntry demo_env (update_request ''1'' ''token-xyz'') bob demo_world =
     (Inr (createResponse 404 (failure_body ''Entry not found'')), demo_world\<lparr>db_calls := 1\<rparr>) \<and>
   spending_entries (snd (handleUpdateSpendingEntry demo_env (update_request ''1'' ''token-xyz'') bob demo_world))
     = spending_entries demo_world"
proof -
  let ?a = "spent 1 ''abc'' ''2025-09-13'' 3000 True"
  let ?ev = "update_request ''1'' ''token-xyz''"
  have h1: "?a \<in> set (spending_entries demo_world)" by (simp add: fixture_defs)
  have h2: "se_user_id ?a \<noteq> sub bob" by (simp add: fixture_defs)
  have h3: "param (pathParameters ?ev) ''id'' = Some ''1''" by (simp add: fixture_defs param_def)
  have h4: "parse_key ''1'' = Some (se_id ?a)"
    by (simp add: parse_key_def digit_val_def fixture_defs upt_rec)
  have h5: "distinct (map se_id (spending_entries demo_world))" by (simp add: fixture_defs)
  have h6: "destructure (body ?ev) = Inr (member coffee)"
    by (simp add: fixture_defs destructure_def fun_eq_iff)
  have h7: "db_fault demo_env (db_calls demo_world) = None" by (simp add: fixture_defs)
  have c: "db_calls demo_world = 0" by (simp add: fixture_defs)
  note T = foreign_entry_untouched [of ?a demo_world bob ?ev "''1''" "member coffee" demo_env,
      THEN conjunct1, rule_format, OF conjI [OF h1 conjI [OF h2 conjI [OF h3 conjI [OF h4 h5]]]]]
  from T [THEN conjunct1, rule_format, OF conjI [OF h6 h7]]
  have r1: "handleUpdateSpendingEntry demo_env ?ev bob demo_world =
     (Inr (createResponse 404 (failure_body ''Entry not found'')), demo_world\<lparr>db_calls := 1\<rparr>)"
    by (simp add: c)
  from T have r2: "spending_entries (snd (handleUpdateSpendingEntry demo_env ?ev bob demo_world))
     = spending_entries demo_world"
    by blast
  from h1 h2 h3 h4 h5 h6 h7 r1 r2 show ?thesis by blast
qed

subsection \<open>C7: adding an entry and listing the day\<close>

text \<open>
  C7 (round trip: after a successful POST /spending/entry, the list returned by
  GET /spending/entries/{userId}?date= for the same date contains the created entry with
  \<open>amount\<close>, \<open>description\<close>, \<open>category\<close> and \<open>isNecessary\<close> as submitted). On the
  sample deployment the entry is stored and listed, with its description and category. The
  list, however, is made of the rows as the driver returns them: the entry has the members
  \<open>user_id\<close>, \<open>is_necessary\<close> (the number 1) and \<open>created_at\<close>, and no member
  \<open>isNecessary\<close> at all; its \<open>amount\<close> is the text \<open>25.50\<close> where the number
  25.5 was submitted, and its \<open>date\<close> is an instant where the day was submitted as a
  string. The answer of the POST and the history, goal and quiz handlers map their rows to
  the field names of the API, and the goal handler converts its amounts with
  \<open>parseFloat\<close>.
\<close>

theorem listed_entry_is_raw_row:
  "fst (handleAddSpendingEntry demo_env add_request alice demo_world) =
     Inr (createResponse 200 (success_body (JObj
       [(''id'', JStr ''1757750400100''), (''userId'', JStr ''abc''),
        (''date'', JStr ''2025-09-14''), (''amount'', JNum (51 / 2)),
        (''description'', JStr ''Coffee and breakfast''), (''category'', JStr ''Food & Dining''),
        (''isNecessary'', JBool True), (''createdAt'', JDate 1757750400200)]))) \<and>
   fst (handleGetSpendingEntries demo_env list_request (Some alice)
          (snd (handleAddSpendingEntry demo_env add_request alice demo_world))) =
     Inr (createResponse 200 (success_body (JArr
       [JObj [(''id'', JNum 4), (''user_id'', JStr ''abc''),
              (''date'', JDay ''2025-09-14''), (''amount'', JStr ''25.50''),
              (''description'', JStr ''Coffee and breakfast''),
              (''category'', JStr ''Food & Dining''),
              (''is_necessary'', JNum 1), (''created_at'', JDate 1757750400000)]])))"
  by (simp add: handleAddSpendingEntry_def handleGetSpendingEntries_def insert_spending_def
      entry_fields_def has_user_def INT_MAX_def select_entries_def order_by_desc_def
      entry_json_def decimal_text_def toString.simps digit_char_def fixture_defs run_defs)

subsection \<open>C8: the chat history\<close>

lemma order_by_desc_sorted: "sorted_wrt (\<ge>) (map key (order_by_desc key rows))"
proof -
  have "sorted (map key (sort_key key rows))" by (rule sorted_sort_key)
  then show ?thesis
    by (simp add: order_by_desc_def rev_map [symmetric] sorted_wrt_rev)
qed

lemma order_by_desc_set: "set (order_by_desc key rows) = set rows"
  by (simp add: order_by_desc_def)

lemma order_by_desc_length: "length (order_by_desc key rows) = length rows"
  by (simp add: order_by_desc_def)

lemma sorted_take_drop:
  assumes "sorted_wrt (\<ge>) (map key xs)"
  shows "\<forall>a \<in> set (take n xs). \<forall>b \<in> set (drop n xs). key b \<le> key (a::'a)"
proof -
  from assms have "sorted_wrt (\<ge>) (map key (take n xs) @ map key (drop n xs))"
    by (simp add: map_append [symmetric] del: map_append)
  then show ?thesis
    by (auto simp: sorted_wrt_append)
qed

text \<open>
  C8 (amended). For every authenticated GetChatHistory request where the path user id equals
  the token subject and the store answers, the returned list holds at most 50 messages of
  that user, ordered newest-first by timestamp: each message's timestamp is later than or
  equal to the next one's (two messages may carry the same timestamp), and no message of the
  user that is left out is newer than a returned one.
\<close>

theorem chat_history_newest_first:
  assumes "path_user ev ''/chat/history/'' = Some (sub p)"
      and "handleGetChatHistory E ev p w = (Inr r, w')"
  shows "\<exists>msgs rest.
           statusCode r = 200 \<and> resp_body r = success_body (JArr (map message_json msgs)) \<and>
           length msgs \<le> 50 \<and> sorted_wrt (\<ge>) (map c_timestamp msgs) \<and>
           set (msgs @ rest) = {m \<in> set (chat_messages w). c_user_id m = sub p} \<and>
           length (msgs @ rest) = length (filter (\<lambda>m. c_user_id m = sub p) (chat_messages w)) \<and>
           (\<forall>a \<in> set msgs. \<forall>b \<in> set rest. c_timestamp b \<le> c_timestamp a)"
proof -
  let ?all = "order_by_desc c_timestamp (filter (\<lambda>m. c_user_id m = sub p) (chat_messages w))"
  from assms have r: "r = createResponse 200 (success_body (JArr (map message_json (take 50 ?all))))"
    by (auto simp: handleGetChatHistory_def Let_def await_def executeQuery_def
        select_chat_history_def resolve_def split: option.splits)
  have s: "sorted_wrt (\<ge>) (map c_timestamp ?all)" by (rule order_by_desc_sorted)
  then have "sorted_wrt (\<ge>) (take 50 (map c_timestamp ?all))" by (rule sorted_wrt_take)
  then have 1: "sorted_wrt (\<ge>) (map c_timestamp (take 50 ?all))" by (simp add: take_map)
  have 2: "set (take 50 ?all @ drop 50 ?all) = {m \<in> set (chat_messages w). c_user_id m = sub p}"
    by (simp add: order_by_desc_set)
  have 3: "length (take 50 ?all @ drop 50 ?all)
             = length (filter (\<lambda>m. c_user_id m = sub p) (chat_messages w))"
    by (simp add: order_by_desc_length)
  have 4: "\<forall>a \<in> set (take 50 ?all). \<forall>b \<in> set (drop 50 ?all). c_timestamp b \<le> c_timestamp a"
    using s by (rule sorted_take_drop)
  have 5: "length (take 50 ?all) \<le> 50" by simp
  from r 1 2 3 4 5 show ?thesis
    by (intro exI [of _ "take 50 ?all"] exI [of _ "drop 50 ?all"]) (simp add: createResponse_def)
qed


text \<open>After two chat turns the history lists the four messages, the newest first.\<close>

theorem chat_history_newest_first_witness:
  "path_user history_request ''/chat/history/'' = Some (sub alice) \<and>
   handleGetChatHistory demo_env history_request alice chat_world =
     (Inr (createResponse 200 (success_body (JArr (map message_json
        [said 4 ''Rent is fixed.'' False 1757750063000, said 3 ''And on rent?'' True 1757750060000,
         said 2 ''Spend less on coffee.'' False 1757750002000,
         said 1 ''How can I save more?'' True 1757750000000])))),
      chat_world\<lparr>db_calls := 1\<rparr>) \<and>
   (\<exists>msgs. resp_body (createResponse 200 (success_body (JArr (map message_json
        [said 4 ''Rent is fixed.'' False 1757750063000, said 3 ''And on rent?'' True 1757750060000,
         said 2 ''Spend less on coffee.'' False 1757750002000,
         said 1 ''How can I save more?'' True 1757750000000]))))
        = success_body (JArr (map message_json msgs)) \<and>
      length msgs \<le> 50 \<and> sorted_wrt (\<ge>) (map c_timestamp msgs))"
proof -
  have auth: "path_user history_request ''/chat/history/'' = Some (sub alice)"
    by (simp add: fixture_defs run_defs)
  have run: "handleGetChatHistory demo_env history_request alice chat_world =
     (Inr (createResponse 200 (success_body (JArr (map message_json
        [said 4 ''Rent is fixed.'' False 1757750063000, said 3 ''And on rent?'' True 1757750060000,
         said 2 ''Spend less on coffee.'' False 1757750002000,
         said 1 ''How can I save more?'' True 1757750000000])))),
      chat_world\<lparr>db_calls := 1\<rparr>)"
    by (simp add: handleGetChatHistory_def select_chat_history_def order_by_desc_def
        fixture_defs run_defs)
  from chat_history_newest_first [OF auth run] auth run show ?thesis
    by blast
qed

text \<open>C8 as stated asks for strictly decreasing timestamps. One chat turn stores the
  user's message and the advisor's reply within the same second, and the history then lists
  two messages with one and the same timestamp.\<close>

theorem chat_turn_shares_timestamp:
  "fst (handleGetChatHistory demo_env history_request alice
          (snd (handleChatMessage demo_env chat_request alice demo_world))) =
     Inr (createResponse 200 (success_body (JArr
       [JObj [(''id'', JStr ''2''), (''userId'', JStr ''abc''),
              (''message'', JStr ''Spend less on coffee.''), (''isUser'', JBool False),
              (''timestamp'', JDate 1757750400000)],
        JObj [(''id'', JStr ''1''), (''userId'', JStr ''abc''),
              (''message'', JStr ''How can I save more?''), (''isUser'', JBool True),
              (''timestamp'', JDate 1757750400000)]])))"
  by (simp add: handleGetChatHistory_def handleChatMessage_def select_chat_history_def
      select_goal_def select_recent_entries_def insert_chat_def has_user_def INT_MAX_def
      order_by_desc_def message_json_def toString.simps digit_char_def fixture_defs run_defs)

subsection \<open>C9: the id of a created entry or goal\<close>

lemma digit_val_digit_char: "d < 10 \<Longrightarrow> digit_val (digit_char d) = Some d"
proof -
  assume "d < 10"
  then have "d \<in> {0, 1, 2, 3, 4, 5, 6, 7, 8, 9}" by auto
  then show ?thesis
    by (auto simp: digit_val_def digit_char_def upt_rec)
qed

lemma parse_digits_append:
  "parse_digits acc (xs @ ys) =
     (case parse_digits acc xs of None \<Rightarrow> None | Some a \<Rightarrow> parse_digits a ys)"
  by (induction xs arbitrary: acc) (auto split: option.splits)

lemma toString_nonempty: "toString n \<noteq> []"
  by (subst toString.simps) simp

lemma parse_digits_toString: "parse_digits 0 (toString n) = Some n"
proof (induction n rule: toString.induct)
  case (1 n)
  show ?case
  proof (cases "n < 10")
    case True
    then show ?thesis
      by (subst toString.simps) (simp add: digit_val_digit_char)
  next
    case False
    with 1 have ih: "parse_digits 0 (toString (n div 10)) = Some (n div 10)" by simp
    have "n mod 10 < 10" by simp
    then have d: "digit_val (digit_char (n mod 10)) = Some (n mod 10)"
      by (rule digit_val_digit_char)
    from False show ?thesis
      by (subst toString.simps) (simp add: parse_digits_append ih d)
  qed
qed

lemma parse_key_toString: "parse_key (toString n) = Some n"
  by (simp add: parse_key_def toString_nonempty parse_digits_toString)

lemma toString_inj: "toString m = toString n \<Longrightarrow> m = n"
  by (metis option.inject parse_key_toString)

text \<open>A row that the bound key does not address survives an update and a delete.\<close>

lemma update_entry_member:
  assumes "update_entry E d a ds c n (Some i) u w1 = Inr (x, w2)"
      and "parse_key i \<noteq> Some (se_id row)"
  shows "(row \<in> set (spending_entries w2)) = (row \<in> set (spending_entries w1))"
proof -
  from assms(1) obtain t where t: "entry_fields E d a ds c n = Inr t"
    by (auto simp: update_entry_def split: sum.splits)
  obtain d' a' ds' c' n' where t': "t = (d', a', ds', c', n')"
    by (rule prod_cases5)
  from assms(1) have
    w2: "spending_entries w2 =
           map (\<lambda>e. if entry_matches i u e
                    then e\<lparr>se_date := d', se_amount := a', se_description := ds',
                           se_category := c', se_is_necessary := n'\<rparr>
                    else e) (spending_entries w1)"
    by (auto simp: update_entry_def t t')
  from assms(2) have no: "\<not> entry_matches i u row" by (simp add: entry_matches_def)
  have "\<And>e. entry_matches i u e \<Longrightarrow>
          row \<noteq> e\<lparr>se_date := d', se_amount := a', se_description := ds',
                    se_category := c', se_is_necessary := n'\<rparr>"
    using assms(2) by (auto simp: entry_matches_def)
  with no show ?thesis
    unfolding w2 by (auto simp: image_iff split: if_splits)
qed

lemma delete_entry_member:
  assumes "delete_entry (Some i) u w1 = Inr (x, w2)"
      and "parse_key i \<noteq> Some (se_id row)"
  shows "(row \<in> set (spending_entries w2)) = (row \<in> set (spending_entries w1))"
  using assms by (auto simp: delete_entry_def entry_matches_def)

lemma update_keeps:
  assumes "param (pathParameters ev) ''id'' = Some i" "parse_key i \<noteq> Some (se_id row)"
      and "row \<in> set (spending_entries w)"
  shows "row \<in> set (spending_entries (snd (handleUpdateSpendingEntry E ev p w)))"
proof -
  obtain res w' where run: "handleUpdateSpendingEntry E ev p w = (res, w')"
    by (cases "handleUpdateSpendingEntry E ev p w")
  have upd: "\<And>d a ds c n w0 res0 w1.
        executeQuery E (update_entry E d a ds c n (Some i) (sub p)) w0 = (res0, w1)
        \<Longrightarrow> (row \<in> set (spending_entries w1)) = (row \<in> set (spending_entries w0))"
    by (erule executeQuery_frame [where g = "\<lambda>xs. row \<in> set xs"])
       (rule update_entry_member [OF _ assms(2)])
  from run assms(1,3) have "row \<in> set (spending_entries w')"
    unfolding handleUpdateSpendingEntry_def Let_def
    by (auto simp: throw_def resolve_def split: sum.splits option.splits
        elim!: await_cases dest!: select_entry_query upd)
  with run show ?thesis by simp
qed

lemma delete_keeps:
  assumes "param (pathParameters ev) ''id'' = Some i" "parse_key i \<noteq> Some (se_id row)"
      and "row \<in> set (spending_entries w)"
  shows "row \<in> set (spending_entries (snd (handleDeleteSpendingEntry E ev p w)))"
proof -
  obtain res w' where run: "handleDeleteSpendingEntry E ev p w = (res, w')"
    by (cases "handleDeleteSpendingEntry E ev p w")
  have del: "\<And>w0 res0 w1. executeQuery E (delete_entry (Some i) (sub p)) w0 = (res0, w1)
        \<Longrightarrow> (row \<in> set (spending_entries w1)) = (row \<in> set (spending_entries w0))"
    by (erule executeQuery_frame [where g = "\<lambda>xs. row \<in> set xs"])
       (rule delete_entry_member [OF _ assms(2)])
  from run assms(1,3) have "row \<in> set (spending_entries w')"
    unfolding handleDeleteSpendingEntry_def Let_def
    by (auto simp: throw_def resolve_def split: sum.splits option.splits
        elim!: await_cases dest!: select_entry_query del)
  with run show ?thesis by simp
qed

lemma insert_spending_row:
  assumes "insert_spending E u d a ds c n w1 = Inr (x, w2)"
  shows "\<exists>row. spending_entries w2 = spending_entries w1 @ [row] \<and>
           se_id row = spending_next_id w1 \<and> se_id row \<le> INT_MAX \<and>
           clock_reads w2 = Suc (clock_reads w1)"
proof -
  from assms obtain t where t: "entry_fields E d a ds c n = Inr t"
    by (auto simp: insert_spending_def split: sum.splits)
  obtain d' a' ds' c' n' where t': "t = (d', a', ds', c', n')"
    by (rule prod_cases5)
  from assms show ?thesis
    by (auto simp: insert_spending_def t t' NOW_def read_clock_def split: if_splits)
qed

lemma add_returns:
  assumes "handleAddSpendingEntry E ev p w = (Inr r, w')"
  shows "\<exists>row data. spending_entries w' = spending_entries w @ [row] \<and>
           se_id row = spending_next_id w \<and> se_id row \<le> INT_MAX \<and>
           statusCode r = 200 \<and> resp_body r = success_body data \<and>
           member data ''id'' = Some (JStr (toString (wall_clock E (Suc (clock_reads w)))))"
proof -
  from assms obtain f x w1 t1 w2 t2 where
    q: "executeQuery E (insert_spending E (sub p) (f ''date'') (f ''amount'') (f ''description'')
          (f ''category'') (f ''isNecessary'')) w = (Inr x, w1)"
    and d: "date_now E w1 = (Inr t1, w2)" "date_now E w2 = (Inr t2, w')"
    and r0: "r = createResponse 200 (success_body (mk_obj
            [(''id'', Some (JStr (toString t1))), (''userId'', Some (JStr (sub p))),
             (''date'', f ''date''), (''amount'', f ''amount''),
             (''description'', f ''description''), (''category'', f ''category''),
             (''isNecessary'', f ''isNecessary''), (''createdAt'', Some (JDate t2))]))"
    unfolding handleAddSpendingEntry_def
    by (auto simp: throw_def resolve_def split: sum.splits elim!: await_InrE)
  from executeQuery_Inr(2) [OF q] obtain row where
    row: "spending_entries w1 = spending_entries w @ [row]" "se_id row = spending_next_id w"
         "se_id row \<le> INT_MAX" "clock_reads w1 = Suc (clock_reads w)"
    by (auto dest!: insert_spending_row)
  from d row(4) have t1: "t1 = wall_clock E (Suc (clock_reads w))"
    and w': "spending_entries w' = spending_entries w1"
    by (auto simp: date_now_def read_clock_def)
  note r = r0 [unfolded t1]
  from r row w' show ?thesis
    by (auto simp: createResponse_def member_mk_obj)
qed

lemma clock_beyond_int:
  assumes "INT_MAX < t" "n \<le> INT_MAX"
  shows "parse_key (toString t) \<noteq> Some n" and "toString t \<noteq> toString n"
  using assms by (auto simp: parse_key_toString dest: toString_inj)

lemma upsert_goal_effect:
  assumes "executeQuery E (upsert_goal E u inc sg pl) w = (res, w1)"
  shows "(clock_reads w1 = clock_reads w \<or> clock_reads w1 = Suc (clock_reads w)) \<and>
         ((\<forall>g \<in> set (savings_goals w). g_id g \<le> INT_MAX) \<longrightarrow>
          (\<forall>g \<in> set (savings_goals w1). g_id g \<le> INT_MAX))"
  using assms
  by (auto simp: executeQuery_def upsert_goal_def NOW_def read_clock_def Let_def
      split: option.splits sum.splits if_splits prod.splits)

lemma set_goal_returns:
  assumes "handleSetSavingsGoal E ev p w = (Inr r, w')"
  shows "\<exists>k data. clock_reads w \<le> k \<and> k < clock_reads w' \<and> statusCode r = 200 \<and>
           resp_body r = success_body data \<and>
           member data ''id'' = Some (JStr (toString (wall_clock E k))) \<and>
           ((\<forall>g \<in> set (savings_goals w). g_id g \<le> INT_MAX) \<longrightarrow>
            (\<forall>g \<in> set (savings_goals w'). g_id g \<le> INT_MAX))"
proof -
  from assms obtain f plan w1 u w2 t1 w3 t2 w4 t3 where
    g: "callGemini E w = (Inr plan, w1)"
    and q: "try_catch
              (executeQuery E (upsert_goal E (sub p) (f ''monthlyIncome'') (f ''monthlySavingsGoal'') plan))
              (\<lambda>err. resolve ()) w1 = (Inr u, w2)"
    and d: "date_now E w2 = (Inr t1, w3)" "date_now E w3 = (Inr t2, w4)" "date_now E w4 = (Inr t3, w')"
    and r0: "r = createResponse 200 (success_body (mk_obj
            [(''id'', Some (JStr (toString t1))), (''userId'', Some (JStr (sub p))),
             (''monthlyIncome'', f ''monthlyIncome''),
             (''monthlySavingsGoal'', f ''monthlySavingsGoal''),
             (''savingsPlan'', Some (JStr plan)),
             (''createdAt'', Some (JDate t2)), (''updatedAt'', Some (JDate t3))]))"
    unfolding handleSetSavingsGoal_def
    by (auto simp: throw_def resolve_def split: sum.splits elim!: await_InrE)
  from g have w1: "clock_reads w1 = clock_reads w" "savings_goals w1 = savings_goals w"
    by (auto dest: callGemini_world)
  from q obtain res0 where "executeQuery E (upsert_goal E (sub p) (f ''monthlyIncome'')
        (f ''monthlySavingsGoal'') plan) w1 = (res0, w2)"
    by (auto simp: resolve_def elim!: try_catch_cases)
  from upsert_goal_effect [OF this] w1 have
    w2: "clock_reads w2 = clock_reads w \<or> clock_reads w2 = Suc (clock_reads w)"
        "(\<forall>g \<in> set (savings_goals w). g_id g \<le> INT_MAX) \<longrightarrow>
         (\<forall>g \<in> set (savings_goals w2). g_id g \<le> INT_MAX)"
    by auto
  from d have t1: "t1 = wall_clock E (clock_reads w2)"
    and w': "savings_goals w' = savings_goals w2" "clock_reads w' = Suc (Suc (Suc (clock_reads w2)))"
    by (auto simp: date_now_def read_clock_def)
  note r = r0 [unfolded t1]
  have "clock_reads w \<le> clock_reads w2 \<and> clock_reads w2 < clock_reads w'"
    using w2(1) w'(2) by auto
  with r w2(2) w'(1) show ?thesis
    by (intro exI [of _ "clock_reads w2"]) (auto simp: createResponse_def member_mk_obj)
qed


text \<open>
  C9. For every successful AddSpendingEntry request, the \<open>id\<close> of the returned payload
  is the reading of the wall clock in milliseconds (\<open>Date.now()\<close>, taken after the
  insert) as a decimal string, while the inserted row has the next auto-increment value of
  the table, an \<open>INT\<close>, as its id. For every successful SetSavingsGoal request the
  \<open>id\<close> is likewise a clock reading taken during the request. A clock reading beyond the
  \<open>INT\<close> range (any instant after 25 January 1970) differs from every id the store
  assigns; consequently an UpdateSpendingEntry or DeleteSpendingEntry called with the
  returned id never addresses the created row, which stays in the table as it is.
\<close>

theorem returned_id_is_clock_reading:
  "(handleAddSpendingEntry E ev p w = (Inr r, w') \<longrightarrow>
      (\<exists>row data. spending_entries w' = spending_entries w @ [row] \<and>
         se_id row = spending_next_id w \<and> se_id row \<le> INT_MAX \<and>
         statusCode r = 200 \<and> resp_body r = success_body data \<and>
         member data ''id'' = Some (JStr (toString (wall_clock E (Suc (clock_reads w))))) \<and>
         (INT_MAX < wall_clock E (Suc (clock_reads w)) \<longrightarrow>
            toString (wall_clock E (Suc (clock_reads w))) \<noteq> toString (se_id row) \<and>
            (row \<in> set (spending_entries w2) \<and>
             param (pathParameters ev2) ''id'' = Some (toString (wall_clock E (Suc (clock_reads w)))) \<longrightarrow>
               row \<in> set (spending_entries (snd (handleUpdateSpendingEntry E2 ev2 p2 w2))) \<and>
               row \<in> set (spending_entries (snd (handleDeleteSpendingEntry E2 ev2 p2 w2))))))) \<and>
   (handleSetSavingsGoal E ev p w = (Inr r, w') \<longrightarrow>
      (\<exists>k data. clock_reads w \<le> k \<and> k < clock_reads w' \<and> statusCode r = 200 \<and>
         resp_body r = success_body data \<and>
         member data ''id'' = Some (JStr (toString (wall_clock E k))) \<and>
         (INT_MAX < wall_clock E k \<and> (\<forall>g \<in> set (savings_goals w). g_id g \<le> INT_MAX) \<longrightarrow>
            (\<forall>g \<in> set (savings_goals w'). toString (wall_clock E k) \<noteq> toString (g_id g)))))"
proof (intro conjI impI)
  assume "handleAddSpendingEntry E ev p w = (Inr r, w')"
  from add_returns [OF this] obtain row data where
    a: "spending_entries w' = spending_entries w @ [row]" "se_id row = spending_next_id w"
       "se_id row \<le> INT_MAX" "statusCode r = 200" "resp_body r = success_body data"
       "member data ''id'' = Some (JStr (toString (wall_clock E (Suc (clock_reads w)))))"
    by blast
  let ?t = "wall_clock E (Suc (clock_reads w))"
  have "INT_MAX < ?t \<longrightarrow>
            toString ?t \<noteq> toString (se_id row) \<and>
            (row \<in> set (spending_entries w2) \<and> param (pathParameters ev2) ''id'' = Some (toString ?t) \<longrightarrow>
               row \<in> set (spending_entries (snd (handleUpdateSpendingEntry E2 ev2 p2 w2))) \<and>
               row \<in> set (spending_entries (snd (handleDeleteSpendingEntry E2 ev2 p2 w2))))"
  proof (intro impI conjI)
    assume big: "INT_MAX < ?t"
    from clock_beyond_int [OF big a(3)]
    show "toString ?t \<noteq> toString (se_id row)" by simp
    assume h: "row \<in> set (spending_entries w2) \<and> param (pathParameters ev2) ''id'' = Some (toString ?t)"
    from clock_beyond_int(1) [OF big a(3)] h
    show "row \<in> set (spending_entries (snd (handleUpdateSpendingEntry E2 ev2 p2 w2)))"
      by (intro update_keeps [where i = "toString ?t"]) simp_all
    from clock_beyond_int(1) [OF big a(3)] h
    show "row \<in> set (spending_entries (snd (handleDeleteSpendingEntry E2 ev2 p2 w2)))"
      by (intro delete_keeps [where i = "toString ?t"]) simp_all
  qed
  with a show "\<exists>row data. spending_entries w' = spending_entries w @ [row] \<and>
         se_id row = spending_next_id w \<and> se_id row \<le> INT_MAX \<and>
         statusCode r = 200 \<and> resp_body r = success_body data \<and>
         member data ''id'' = Some (JStr (toString ?t)) \<and>
         (INT_MAX < ?t \<longrightarrow>
            toString ?t \<noteq> toString (se_id row) \<and>
            (row \<in> set (spending_entries w2) \<and> param (pathParameters ev2) ''id'' = Some (toString ?t) \<longrightarrow>
               row \<in> set (spending_entries (snd (handleUpdateSpendingEntry E2 ev2 p2 w2))) \<and>
               row \<in> set (spending_entries (snd (handleDeleteSpendingEntry E2 ev2 p2 w2)))))"
    by blast
next
  assume "handleSetSavingsGoal E ev p w = (Inr r, w')"
  from set_goal_returns [OF this] obtain k data where
    b: "clock_reads w \<le> k" "k < clock_reads w'" "statusCode r = 200"
       "resp_body r = success_body data"
       "member data ''id'' = Some (JStr (toString (wall_clock E k)))"
       "(\<forall>g \<in> set (savings_goals w). g_id g \<le> INT_MAX) \<longrightarrow>
        (\<forall>g \<in> set (savings_goals w'). g_id g \<le> INT_MAX)"
    by blast
  have "INT_MAX < wall_clock E k \<and> (\<forall>g \<in> set (savings_goals w). g_id g \<le> INT_MAX) \<longrightarrow>
            (\<forall>g \<in> set (savings_goals w'). toString (wall_clock E k) \<noteq> toString (g_id g))"
    using b(6) clock_beyond_int(2) by blast
  with b show "\<exists>k data. clock_reads w \<le> k \<and> k < clock_reads w' \<and> statusCode r = 200 \<and>
         resp_body r = success_body data \<and>
         member data ''id'' = Some (JStr (toString (wall_clock E k))) \<and>
         (INT_MAX < wall_clock E k \<and> (\<forall>g \<in> set (savings_goals w). g_id g \<le> INT_MAX) \<longrightarrow>
            (\<forall>g \<in> set (savings_goals w'). toString (wall_clock E k) \<noteq> toString (g_id g)))"
    by blast
qed


text \<open>The sample user adds an entry: it becomes row 4, the answer names it
  \<open>1757750400100\<close>, and an update or a delete with that id leaves row 4 in place. The
  same user then sets a goal.\<close>

theorem returned_id_is_clock_reading_witness:
  "(\<exists>r w'. handleAddSpendingEntry demo_env add_request alice demo_world = (Inr r, w') \<and>
      INT_MAX < wall_clock demo_env (Suc (clock_reads demo_world)) \<and>
      toString (wall_clock demo_env (Suc (clock_reads demo_world))) = ''1757750400100'' \<and>
      param (pathParameters (update_request ''1757750400100'' ''token-abc'')) ''id''
        = Some ''1757750400100'' \<and>
      (\<exists>row. spending_entries w' = spending_entries demo_world @ [row] \<and> se_id row = 4 \<and>
         row \<in> set (spending_entries (snd (handleUpdateSpendingEntry demo_env
                   (update_request ''1757750400100'' ''token-abc'') alice w'))) \<and>
         row \<in> set (spending_entries (snd (handleDeleteSpendingEntry demo_env
                   (update_request ''1757750400100'' ''token-abc'') alice w'))))) \<and>
   (\<exists>r w'. handleSetSavingsGoal demo_env set_goal_request alice demo_world = (Inr r, w') \<and>
      (\<exists>k data. resp_body r = success_body data \<and>
         member data ''id'' = Some (JStr (toString (wall_clock demo_env k)))))"
proof -
  let ?ev2 = "update_request ''1757750400100'' ''token-abc''"
  obtain r w' where run: "handleAddSpendingEntry demo_env add_request alice demo_world = (Inr r, w')"
    by (simp add: handleAddSpendingEntry_def insert_spending_def entry_fields_def has_user_def
        INT_MAX_def fixture_defs run_defs)
  have t: "toString (wall_clock demo_env (Suc (clock_reads demo_world))) = ''1757750400100''"
    by (simp add: fixture_defs toString.simps digit_char_def)
  have big: "INT_MAX < wall_clock demo_env (Suc (clock_reads demo_world))"
    by (simp add: fixture_defs INT_MAX_def)
  have id: "param (pathParameters ?ev2) ''id'' = Some ''1757750400100''"
    by (simp add: fixture_defs param_def)
  have next_id: "spending_next_id demo_world = 4"
    by (simp add: fixture_defs)
  from returned_id_is_clock_reading [where E = demo_env and ev = add_request and p = alice
      and w = demo_world and r = r and w' = w' and ?w2.0 = w' and ?ev2.0 = ?ev2
      and ?E2.0 = demo_env and ?p2.0 = alice, THEN conjunct1, rule_format, OF run]
  obtain row where
    row: "spending_entries w' = spending_entries demo_world @ [row]" "se_id row = 4"
    and keep: "row \<in> set (spending_entries w') \<and> param (pathParameters ?ev2) ''id''
                 = Some (toString (wall_clock demo_env (Suc (clock_reads demo_world)))) \<longrightarrow>
               row \<in> set (spending_entries (snd (handleUpdateSpendingEntry demo_env ?ev2 alice w'))) \<and>
               row \<in> set (spending_entries (snd (handleDeleteSpendingEntry demo_env ?ev2 alice w')))"
    using big next_id by auto
  from row(1) have "row \<in> set (spending_entries w')" by simp
  with keep id t have kept:
    "row \<in> set (spending_entries (snd (handleUpdateSpendingEntry demo_env ?ev2 alice w')))"
    "row \<in> set (spending_entries (snd (handleDeleteSpendingEntry demo_env ?ev2 alice w')))"
    by simp_all
  obtain r2 w2 where run2: "handleSetSavingsGoal demo_env set_goal_request alice demo_world = (Inr r2, w2)"
    by (simp add: handleSetSavingsGoal_def upsert_goal_def fixture_defs run_defs)
  from returned_id_is_clock_reading [where E = demo_env and ev = set_goal_request and p = alice
      and w = demo_world and r = r2 and w' = w2, THEN conjunct2, rule_format, OF run2]
  have goal: "\<exists>k data. resp_body r2 = success_body data \<and>
         member data ''id'' = Some (JStr (toString (wall_clock demo_env k)))"
    by blast
  from run t big id row kept run2 goal show ?thesis by blast
qed

subsection \<open>C10: an update keeps the creation time\<close>

lemma update_entry_keys:
  assumes "update_entry E d a ds c n i u w1 = Inr (x, w2)"
  shows "map (\<lambda>e. (se_id e, se_user_id e, se_created_at e)) (spending_entries w2)
           = map (\<lambda>e. (se_id e, se_user_id e, se_created_at e)) (spending_entries w1)"
proof -
  from assms obtain t where t: "entry_fields E d a ds c n = Inr t"
    by (auto simp: update_entry_def split: sum.splits)
  obtain d' a' ds' c' n' where t': "t = (d', a', ds', c', n')"
    by (rule prod_cases5)
  from assms show ?thesis
    by (auto simp: update_entry_def t t' split: option.splits)
qed

lemma select_entry_rows:
  assumes "executeQuery E (select_entry entryId u) w = (Inr rows, w1)"
  shows "\<exists>i. entryId = Some i \<and> rows = filter (entry_matches i u) (spending_entries w) \<and>
           spending_entries w1 = spending_entries w"
  using executeQuery_Inr(2) [OF assms]
  by (auto simp: select_entry_def split: option.splits)

text \<open>
  C10. For every successful UpdateSpendingEntry request, the update leaves the
  \<open>created_at\<close> (and the id and the owner) of every stored entry as it was, the
  statement setting only date, amount, description, category and is_necessary; and the
  \<open>createdAt\<close> of the answer is the \<open>created_at\<close> of the entry as the ownership query
  read it before the update, which the updated entry still has.
\<close>

theorem update_keeps_created_at:
  assumes "handleUpdateSpendingEntry E ev p w = (Inr r, w')" and "statusCode r = 200"
  shows "\<exists>i existing data.
           param (pathParameters ev) ''id'' = Some i \<and>
           first_row (filter (entry_matches i (sub p)) (spending_entries w)) = Some existing \<and>
           resp_body r = success_body data \<and>
           member data ''createdAt'' = Some (JDate (se_created_at existing)) \<and>
           map (\<lambda>e. (se_id e, se_user_id e, se_created_at e)) (spending_entries w')
             = map (\<lambda>e. (se_id e, se_user_id e, se_created_at e)) (spending_entries w) \<and>
           (\<exists>e' \<in> set (spending_entries w').
              se_id e' = se_id existing \<and> se_user_id e' = se_user_id existing \<and>
              se_created_at e' = se_created_at existing)"
proof -
  let ?entryId = "param (pathParameters ev) ''id''"
  let ?keys = "\<lambda>e. (se_id e, se_user_id e, se_created_at e)"
  from assms obtain f rows w1 where
    f: "destructure (body ev) = Inr f"
    and sel: "executeQuery E (select_entry ?entryId (sub p)) w = (Inr rows, w1)"
    and rest: "(case first_row rows of
               None \<Rightarrow> resolve (createResponse 404 (failure_body ''Entry not found''))
             | Some existingEntry \<Rightarrow>
                 await (executeQuery E (update_entry E (f ''date'') (f ''amount'') (f ''description'')
                          (f ''category'') (f ''isNecessary'') ?entryId (sub p))) (\<lambda>_.
                 resolve (createResponse 200 (success_body (mk_obj
                   [(''id'', map_option JStr ?entryId),
                    (''userId'', Some (JStr (sub p))),
                    (''date'', f ''date''), (''amount'', f ''amount''),
                    (''description'', f ''description''), (''category'', f ''category''),
                    (''isNecessary'', f ''isNecessary''),
                    (''createdAt'', Some (JDate (se_created_at existingEntry)))]))))) w1 = (Inr r, w')"
    unfolding handleUpdateSpendingEntry_def Let_def
    by (auto simp: throw_def split: sum.splits elim: await_InrE)
  from select_entry_rows [OF sel] obtain i where
    i: "?entryId = Some i" "rows = filter (entry_matches i (sub p)) (spending_entries w)"
       "spending_entries w1 = spending_entries w"
    by blast
  from rest assms(2) obtain existing where ex: "first_row rows = Some existing"
    by (cases "first_row rows") (auto simp: resolve_def createResponse_def)
  with rest obtain u where
    upd: "executeQuery E (update_entry E (f ''date'') (f ''amount'') (f ''description'')
            (f ''category'') (f ''isNecessary'') ?entryId (sub p)) w1 = (Inr u, w')"
    and r: "r = createResponse 200 (success_body (mk_obj
                   [(''id'', map_option JStr ?entryId),
                    (''userId'', Some (JStr (sub p))),
                    (''date'', f ''date''), (''amount'', f ''amount''),
                    (''description'', f ''description''), (''category'', f ''category''),
                    (''isNecessary'', f ''isNecessary''),
                    (''createdAt'', Some (JDate (se_created_at existing)))]))"
    by (auto simp: resolve_def elim!: await_InrE)
  from executeQuery_Inr(2) [OF upd] have
    "map ?keys (spending_entries w') = map ?keys (spending_entries (w1\<lparr>db_calls := Suc (db_calls w1)\<rparr>))"
    by (rule update_entry_keys)
  with i(3) have keys: "map ?keys (spending_entries w') = map ?keys (spending_entries w)"
    by simp
  from ex have "existing \<in> set rows"
    by (auto simp: first_row_def split: list.splits)
  with i(2) have "existing \<in> set (spending_entries w)"
    by simp
  then have "?keys existing \<in> set (map ?keys (spending_entries w))"
    by simp
  then have "?keys existing \<in> set (map ?keys (spending_entries w'))"
    by (simp only: keys)
  then have same: "\<exists>e' \<in> set (spending_entries w').
              se_id e' = se_id existing \<and> se_user_id e' = se_user_id existing \<and>
              se_created_at e' = se_created_at existing"
    by auto
  have m: "member (mk_obj
                   [(''id'', map_option JStr ?entryId),
                    (''userId'', Some (JStr (sub p))),
                    (''date'', f ''date''), (''amount'', f ''amount''),
                    (''description'', f ''description''), (''category'', f ''category''),
                    (''isNecessary'', f ''isNecessary''),
                    (''createdAt'', Some (JDate (se_created_at existing)))]) ''createdAt''
           = Some (JDate (se_created_at existing))"
    by (rule member_mk_obj) simp
  from i(1,2) ex r keys same m show ?thesis
    by (auto simp: createResponse_def)
qed

text \<open>The sample user rewrites entry 1, created at 1757700000000.\<close>

theorem update_keeps_created_at_witness:
  "\<exists>r w'. handleUpdateSpendingEntry demo_env (update_request ''1'' ''token-abc'') alice demo_world
             = (Inr r, w') \<and> statusCode r = 200 \<and>
     (\<exists>data. resp_body r = success_body data \<and>
        member data ''createdAt'' = Some (JDate 1757700000000)) \<and>
     map se_created_at (spending_entries w') = map se_created_at (spending_entries demo_world)"
proof -
  let ?ev = "update_request ''1'' ''token-abc''"
  obtain r w' where run: "handleUpdateSpendingEntry demo_env ?ev alice demo_world = (Inr r, w')"
    and ok: "statusCode r = 200"
    by (simp add: handleUpdateSpendingEntry_def select_entry_def update_entry_def entry_fields_def
        entry_matches_def parse_key_def digit_val_def upt_rec fixture_defs run_defs)
  have first: "first_row (filter (entry_matches ''1'' (sub alice)) (spending_entries demo_world))
                 = Some (spent 1 ''abc'' ''2025-09-13'' 3000 True)"
    by (simp add: first_row_def entry_matches_def parse_key_def digit_val_def upt_rec fixture_defs)
  have id: "param (pathParameters ?ev) ''id'' = Some ''1''"
    by (simp add: fixture_defs param_def)
  from update_keeps_created_at [OF run ok] id first obtain data where
    d: "resp_body r = success_body data"
       "member data ''createdAt'' = Some (JDate (se_created_at (spent 1 ''abc'' ''2025-09-13'' 3000 True)))"
    and keys: "map (\<lambda>e. (se_id e, se_user_id e, se_created_at e)) (spending_entries w')
             = map (\<lambda>e. (se_id e, se_user_id e, se_created_at e)) (spending_entries demo_world)"
    by auto
  from keys have "map (\<lambda>k. snd (snd k)) (map (\<lambda>e. (se_id e, se_user_id e, se_created_at e)) (spending_entries w'))
             = map (\<lambda>k. snd (snd k)) (map (\<lambda>e. (se_id e, se_user_id e, se_created_at e)) (spending_entries demo_world))"
    by simp
  then have c: "map se_created_at (spending_entries w') = map se_created_at (spending_entries demo_world)"
    by (simp add: comp_def)
  from d(2) have "member data ''createdAt'' = Some (JDate 1757700000000)"
    by (simp add: spent_def)
  with run ok d(1) c show ?thesis by blast
qed

end
